theory Spec2Isabelle
  imports Main "HOL-Library.AList"
begin

section \<open>The windowed peak detection pipeline (\<^verbatim>\<open>windowedPeakDetection.py\<close>)\<close>

text \<open>
  The class \<^verbatim>\<open>Wpd\<close> is a composition root: its constructor builds four queues, five
  plottable lists and five worker stages, and its methods delegate to them. The model is
  an object store: every Python object lives at an address, a reference is an address,
  and each method is a function from the store to an error or a result with the new
  store. Calls of methods of the collaborating objects are recorded in a log, so that
  which calls a method makes, and in which order, can be stated.
\<close>

subsection \<open>Values, objects, the store\<close>

type_synonym addr = nat

text \<open>Python values as far as the pipeline sees them: parameters are opaque, objects are
  references.\<close>

datatype val = VNone | VInt int | VStr string | VRef addr

text \<open>The exceptions the class itself can raise: a missing attribute or method, a
  missing key of a registry, and \<^verbatim>\<open>len\<close> of a value that has no length.\<close>

datatype error = AttributeError string | KeyError val | TypeError string

datatype lifecycle = Idle | Running | Stopping | Stopped

text \<open>
  Modelled from the spec: the stage classes (\<^verbatim>\<open>WpdPreProcessor\<close>, the smoothing
  windows, the peak scoring functions, \<^verbatim>\<open>PeakDetector\<close>, \<^verbatim>\<open>WpdPostProcessor\<close>) are
  not part of the source file. A stage holds the references it was constructed with
  (parameters, input queue, optional plottable list, output), a lifecycle status and
  a done flag.
\<close>

record stage =
  stage_cls :: string
  stage_params :: val
  stage_in :: val
  stage_obs :: "val option"
  stage_out :: val
  status :: lifecycle
  finished :: bool

text \<open>
  Modelled from the spec: \<^verbatim>\<open>Queue\<close> (a FIFO of items) and \<^verbatim>\<open>PlottableList\<close> (an
  append-only sequence with its subscribers, each an observer and a topic, in
  subscription order) are not part of the source file either. A \<^verbatim>\<open>Wpd\<close> object is
  its attribute dictionary, in assignment order.
\<close>

datatype obj =
    Queue "val list"
  | PlottableList "val list" "(val \<times> string) list"
  | Stage stage
  | WpdObj "(string \<times> val) list"
  | Opaque

text \<open>A logged call: the receiver, the method name, the arguments.\<close>

datatype event = Call addr string "val list"

record world =
  heap :: "obj list"
  calls :: "event list"

subsection \<open>Computations that may raise\<close>

type_synonym 'a comp = "world \<Rightarrow> error + ('a \<times> world)"

definition ret :: "'a \<Rightarrow> 'a comp" where
  "ret x = (\<lambda>s. Inr (x, s))"

definition raise :: "error \<Rightarrow> 'a comp" where
  "raise e = (\<lambda>s. Inl e)"

definition bnd :: "'a comp \<Rightarrow> ('a \<Rightarrow> 'b comp) \<Rightarrow> 'b comp" where
  "bnd m f = (\<lambda>s. case m s of Inl e \<Rightarrow> Inl e | Inr (x, s') \<Rightarrow> f x s')"

definition andthen :: "unit comp \<Rightarrow> 'b comp \<Rightarrow> 'b comp" where
  "andthen m k = bnd m (\<lambda>_. k)"

text \<open>Python's \<^verbatim>\<open>and\<close> and \<^verbatim>\<open>or\<close> evaluate the right operand only when the
  left one does not decide the result.\<close>

definition py_and :: "bool comp \<Rightarrow> bool comp \<Rightarrow> bool comp" where
  "py_and m k = bnd m (\<lambda>b. if b then k else ret False)"

definition py_or :: "bool comp \<Rightarrow> bool comp \<Rightarrow> bool comp" where
  "py_or m k = bnd m (\<lambda>b. if b then ret True else k)"

subsection \<open>Store primitives\<close>

definition alloc :: "obj \<Rightarrow> addr comp" where
  "alloc ob = (\<lambda>s. Inr (length (heap s), s\<lparr>heap := heap s @ [ob]\<rparr>))"

definition store :: "addr \<Rightarrow> obj \<Rightarrow> unit comp" where
  "store a ob = (\<lambda>s. Inr ((), s\<lparr>heap := (heap s)[a := ob]\<rparr>))"

definition log_call :: "event \<Rightarrow> unit comp" where
  "log_call e = (\<lambda>s. Inr ((), s\<lparr>calls := calls s @ [e]\<rparr>))"

text \<open>The object a value refers to; a value that is no reference to an object of the
  store has no method \<open>meth\<close>.\<close>

definition deref :: "val \<Rightarrow> string \<Rightarrow> (addr \<times> obj) comp" where
  "deref v meth = (\<lambda>s.
     case v of
       VRef a \<Rightarrow> (if a < length (heap s) then Inr ((a, heap s ! a), s)
                  else Inl (AttributeError meth))
     | _ \<Rightarrow> Inl (AttributeError meth))"

text \<open>\<^verbatim>\<open>self.name\<close> and \<^verbatim>\<open>self.name = v\<close> on a \<^verbatim>\<open>Wpd\<close> object. The class
  defines methods only, and no method has the name of an attribute the code reads, so
  reading an attribute looks it up among those assigned to the object and raises when it
  is not there.\<close>

definition getattr :: "addr \<Rightarrow> string \<Rightarrow> val comp" where
  "getattr self name = bnd (deref (VRef self) name) (\<lambda>(a, ob).
     case ob of
       WpdObj d \<Rightarrow> (case map_of d name of
                      Some v \<Rightarrow> ret v
                    | None \<Rightarrow> raise (AttributeError name))
     | _ \<Rightarrow> raise (AttributeError name))"

definition setattr :: "addr \<Rightarrow> string \<Rightarrow> val \<Rightarrow> unit comp" where
  "setattr self name v = bnd (deref (VRef self) name) (\<lambda>(a, ob).
     case ob of
       WpdObj d \<Rightarrow> store a (WpdObj (AList.update name v d))
     | _ \<Rightarrow> raise (AttributeError name))"

subsection \<open>The collaborators' interface\<close>

text \<open>Modelled from the spec: \<^verbatim>\<open>Queue()\<close> is a new empty queue, \<^verbatim>\<open>size()\<close> its
  instantaneous count.\<close>

definition Queue_new :: "val comp" where
  "Queue_new = bnd (alloc (Queue [])) (\<lambda>a. ret (VRef a))"

definition call_size :: "val \<Rightarrow> nat comp" where
  "call_size v = bnd (deref v ''size'') (\<lambda>(a, ob).
     case ob of
       Queue xs \<Rightarrow> andthen (log_call (Call a ''size'' [])) (ret (length xs))
     | _ \<Rightarrow> raise (AttributeError ''size''))"

text \<open>Modelled from the spec: \<^verbatim>\<open>PlottableList()\<close> is a new empty sequence without
  subscribers, \<^verbatim>\<open>subscribe(observer, topic)\<close> registers the observer under the topic,
  \<^verbatim>\<open>len\<close> is the number of published values.\<close>

definition PlottableList_new :: "val comp" where
  "PlottableList_new = bnd (alloc (PlottableList [] [])) (\<lambda>a. ret (VRef a))"

definition call_subscribe :: "val \<Rightarrow> val \<Rightarrow> string \<Rightarrow> unit comp" where
  "call_subscribe v observer topic = bnd (deref v ''subscribe'') (\<lambda>(a, ob).
     case ob of
       PlottableList vs subs \<Rightarrow>
         andthen (log_call (Call a ''subscribe'' [observer, VStr topic]))
           (store a (PlottableList vs (subs @ [(observer, topic)])))
     | _ \<Rightarrow> raise (AttributeError ''subscribe''))"

definition py_len :: "val \<Rightarrow> nat comp" where
  "py_len v = bnd (deref v ''__len__'') (\<lambda>(a, ob).
     case ob of
       PlottableList vs subs \<Rightarrow> andthen (log_call (Call a ''__len__'' [])) (ret (length vs))
     | _ \<Rightarrow> raise (TypeError ''__len__''))"

text \<open>
  Modelled from the spec: constructing a stage stores the references it is given; a new
  stage is idle and not done. The four-argument classes take (parameters, input queue,
  plottable list, output), the smoothing windows (parameters, input queue, output queue).
\<close>

definition Stage_new :: "string \<Rightarrow> val \<Rightarrow> val \<Rightarrow> val option \<Rightarrow> val \<Rightarrow> val comp" where
  "Stage_new cls ps inq obs outq =
     bnd (alloc (Stage \<lparr>stage_cls = cls, stage_params = ps, stage_in = inq, stage_obs = obs,
                       stage_out = outq, status = Idle, finished = False\<rparr>))
       (\<lambda>a. ret (VRef a))"

text \<open>
  The lifecycle methods of the stages are parameters of the model: any implementation of
  the capability interface start, stop, isDone, isRunning, acting on the stage's own
  state and returning normally. Starting a stage spawns its worker and returns; what the
  worker does later is not part of the call. Every method call on a collaborator is
  logged with its receiver.
\<close>

record stage_impl =
  start_impl :: "stage \<Rightarrow> stage"
  stop_impl :: "stage \<Rightarrow> stage"
  isDone_impl :: "stage \<Rightarrow> bool"
  isRunning_impl :: "stage \<Rightarrow> bool"

definition call_start :: "stage_impl \<Rightarrow> val \<Rightarrow> unit comp" where
  "call_start I v = bnd (deref v ''start'') (\<lambda>(a, ob).
     case ob of
       Stage st \<Rightarrow> andthen (log_call (Call a ''start'' [])) (store a (Stage (start_impl I st)))
     | _ \<Rightarrow> raise (AttributeError ''start''))"

definition call_stop :: "stage_impl \<Rightarrow> val \<Rightarrow> unit comp" where
  "call_stop I v = bnd (deref v ''stop'') (\<lambda>(a, ob).
     case ob of
       Stage st \<Rightarrow> andthen (log_call (Call a ''stop'' [])) (store a (Stage (stop_impl I st)))
     | _ \<Rightarrow> raise (AttributeError ''stop''))"

definition call_isDone :: "stage_impl \<Rightarrow> val \<Rightarrow> bool comp" where
  "call_isDone I v = bnd (deref v ''isDone'') (\<lambda>(a, ob).
     case ob of
       Stage st \<Rightarrow> andthen (log_call (Call a ''isDone'' [])) (ret (isDone_impl I st))
     | _ \<Rightarrow> raise (AttributeError ''isDone''))"

definition call_isRunning :: "stage_impl \<Rightarrow> val \<Rightarrow> bool comp" where
  "call_isRunning I v = bnd (deref v ''isRunning'') (\<lambda>(a, ob).
     case ob of
       Stage st \<Rightarrow> andthen (log_call (Call a ''isRunning'' [])) (ret (isRunning_impl I st))
     | _ \<Rightarrow> raise (AttributeError ''isRunning''))"

text \<open>
  The registries \<^verbatim>\<open>Constants.SMOOTHING_WINDOWS\<close> and \<^verbatim>\<open>Constants.PEAKY_FUNCTIONS\<close>
  (\<^verbatim>\<open>src/constants.py\<close> is not part of the source file) are parameters: dictionaries from
  a type tag to a stage class. Subscripting a dictionary with a missing key raises.
\<close>

record constants =
  SMOOTHING_WINDOWS :: "(val \<times> string) list"
  PEAKY_FUNCTIONS :: "(val \<times> string) list"

definition subscript :: "(val \<times> string) list \<Rightarrow> val \<Rightarrow> string comp" where
  "subscript d k = (case map_of d k of Some c \<Rightarrow> ret c | None \<Rightarrow> raise (KeyError k))"

subsection \<open>The class \<^verbatim>\<open>Wpd\<close>\<close>

definition Wpd_init ::
  "constants \<Rightarrow> addr \<Rightarrow> val \<Rightarrow> val \<Rightarrow> val \<Rightarrow> val \<Rightarrow> val \<Rightarrow> val \<Rightarrow> val \<Rightarrow> val \<Rightarrow> val \<Rightarrow> unit comp" where
  "Wpd_init C self queue preProcessingParams windowType windowParams peakFuncType
       peakFuncParams peakDetectorParams postProcessingParams uiCallbackHandler =
     andthen (setattr self ''inputQueue'' queue)
    (andthen (bnd Queue_new (setattr self ''dataQueue''))
    (andthen (bnd Queue_new (setattr self ''smoothedDataQueue''))
    (andthen (bnd Queue_new (setattr self ''peakScores''))
    (andthen (bnd Queue_new (setattr self ''peaks''))
    (andthen (bnd PlottableList_new (setattr self ''data''))
    (andthen (bnd PlottableList_new (setattr self ''smoothedData''))
    (andthen (bnd PlottableList_new (setattr self ''peakScoreData''))
    (andthen (bnd PlottableList_new (setattr self ''peakData''))
    (andthen (bnd PlottableList_new (setattr self ''confirmedPeaks''))
    (andthen (bnd (getattr self ''data'')
                (\<lambda>l. call_subscribe l uiCallbackHandler ''raw_data''))
    (andthen (bnd (getattr self ''smoothedData'')
                (\<lambda>l. call_subscribe l uiCallbackHandler ''smooth_data''))
    (andthen (bnd (getattr self ''peakScoreData'')
                (\<lambda>l. call_subscribe l uiCallbackHandler ''peak_score_data''))
    (andthen (bnd (getattr self ''peakData'')
                (\<lambda>l. call_subscribe l uiCallbackHandler ''peak_data''))
    (andthen (bnd (getattr self ''confirmedPeaks'')
                (\<lambda>l. call_subscribe l uiCallbackHandler ''confirmed_peak_data''))
    (andthen (bnd (getattr self ''inputQueue'') (\<lambda>i.
              bnd (getattr self ''data'') (\<lambda>l.
              bnd (getattr self ''dataQueue'') (\<lambda>out.
              bnd (Stage_new ''WpdPreProcessor'' preProcessingParams i (Some l) out)
                (setattr self ''preProcessing'')))))
    (andthen (bnd (subscript (SMOOTHING_WINDOWS C) windowType) (\<lambda>cls.
              bnd (getattr self ''dataQueue'') (\<lambda>i.
              bnd (getattr self ''smoothedDataQueue'') (\<lambda>out.
              bnd (Stage_new cls windowParams i None out)
                (setattr self ''window'')))))
    (andthen (bnd (subscript (PEAKY_FUNCTIONS C) peakFuncType) (\<lambda>cls.
              bnd (getattr self ''smoothedDataQueue'') (\<lambda>i.
              bnd (getattr self ''smoothedData'') (\<lambda>l.
              bnd (getattr self ''peakScores'') (\<lambda>out.
              bnd (Stage_new cls peakFuncParams i (Some l) out)
                (setattr self ''peakScorer''))))))
    (andthen (bnd (getattr self ''peakScores'') (\<lambda>i.
              bnd (getattr self ''peakScoreData'') (\<lambda>l.
              bnd (getattr self ''peaks'') (\<lambda>out.
              bnd (Stage_new ''PeakDetector'' peakDetectorParams i (Some l) out)
                (setattr self ''peakDetection'')))))
             (bnd (getattr self ''peaks'') (\<lambda>i.
              bnd (getattr self ''peakData'') (\<lambda>l.
              bnd (getattr self ''confirmedPeaks'') (\<lambda>out.
              bnd (Stage_new ''WpdPostProcessor'' postProcessingParams i (Some l) out)
                (setattr self ''postProcessing'')))))))))))))))))))))))"

text \<open>\<^verbatim>\<open>Wpd(...)\<close>: a new object without attributes, initialised by the constructor.\<close>

definition Wpd_new ::
  "constants \<Rightarrow> val \<Rightarrow> val \<Rightarrow> val \<Rightarrow> val \<Rightarrow> val \<Rightarrow> val \<Rightarrow> val \<Rightarrow> val \<Rightarrow> val \<Rightarrow> addr comp" where
  "Wpd_new C queue preProcessingParams windowType windowParams peakFuncType
       peakFuncParams peakDetectorParams postProcessingParams uiCallbackHandler =
     bnd (alloc (WpdObj [])) (\<lambda>self.
       andthen (Wpd_init C self queue preProcessingParams windowType windowParams peakFuncType
                  peakFuncParams peakDetectorParams postProcessingParams uiCallbackHandler)
         (ret self))"

definition Wpd_start :: "stage_impl \<Rightarrow> addr \<Rightarrow> unit comp" where
  "Wpd_start I self =
     andthen (bnd (getattr self ''preProcessing'') (call_start I))
    (andthen (bnd (getattr self ''window'') (call_start I))
    (andthen (bnd (getattr self ''peakScorer'') (call_start I))
    (andthen (bnd (getattr self ''peakDetection'') (call_start I))
             (bnd (getattr self ''postProcessing'') (call_start I)))))"

definition Wpd_stop :: "stage_impl \<Rightarrow> addr \<Rightarrow> unit comp" where
  "Wpd_stop I self =
     andthen (bnd (getattr self ''preProcessing'') (call_stop I))
    (andthen (bnd (getattr self ''window'') (call_stop I))
    (andthen (bnd (getattr self ''peakScorer'') (call_stop I))
    (andthen (bnd (getattr self ''peakDetection'') (call_stop I))
             (bnd (getattr self ''postProcessing'') (call_stop I)))))"

definition Wpd_isDone :: "stage_impl \<Rightarrow> addr \<Rightarrow> bool comp" where
  "Wpd_isDone I self =
     py_and (bnd (getattr self ''preProcessing'') (call_isDone I))
    (py_and (bnd (getattr self ''window'') (call_isDone I))
    (py_and (bnd (getattr self ''peakScorer'') (call_isDone I))
    (py_and (bnd (getattr self ''peakDetection'') (call_isDone I))
            (bnd (getattr self ''postProcessing'') (call_isDone I)))))"

definition Wpd_isRunning :: "stage_impl \<Rightarrow> addr \<Rightarrow> bool comp" where
  "Wpd_isRunning I self =
     py_or (bnd (getattr self ''preProcessing'') (call_isRunning I))
    (py_or (bnd (getattr self ''window'') (call_isRunning I))
    (py_or (bnd (getattr self ''peakScorer'') (call_isRunning I))
    (py_or (bnd (getattr self ''peakDetection'') (call_isRunning I))
           (bnd (getattr self ''postProcessing'') (call_isRunning I)))))"

definition Wpd_getRawData :: "addr \<Rightarrow> val comp" where
  "Wpd_getRawData self = getattr self ''data''"

definition Wpd_getProcessedDataSize :: "addr \<Rightarrow> nat comp" where
  "Wpd_getProcessedDataSize self = bnd (getattr self ''dataQueue'') call_size"

definition Wpd_getSmoothedData :: "addr \<Rightarrow> val comp" where
  "Wpd_getSmoothedData self = getattr self ''smoothedData''"

definition Wpd_getPeakyData :: "addr \<Rightarrow> val comp" where
  "Wpd_getPeakyData self = getattr self ''peakyData''"

definition Wpd_getPeaks :: "addr \<Rightarrow> val comp" where
  "Wpd_getPeaks self = getattr self ''confirmedPeaks''"

definition Wpd_getSteps :: "addr \<Rightarrow> nat comp" where
  "Wpd_getSteps self = bnd (getattr self ''confirmedPeaks'') py_len"

subsection \<open>Observing the store\<close>

text \<open>Two read-only views used to state the properties: the value of an attribute of a
  \<^verbatim>\<open>Wpd\<close> object, and the stage object an attribute refers to, with its address.
  \<open>subscribers\<close> lists the subscriptions of an object (none unless it is a plottable
  list).\<close>

definition attr_of :: "addr \<Rightarrow> string \<Rightarrow> world \<Rightarrow> val option" where
  "attr_of self name s =
     (if self < length (heap s)
      then (case heap s ! self of WpdObj d \<Rightarrow> map_of d name | _ \<Rightarrow> None)
      else None)"

definition stage_at :: "addr \<Rightarrow> string \<Rightarrow> world \<Rightarrow> (addr \<times> stage) option" where
  "stage_at self name s =
     (case attr_of self name s of
        Some (VRef a) \<Rightarrow>
          (if a < length (heap s)
           then (case heap s ! a of Stage st \<Rightarrow> Some (a, st) | _ \<Rightarrow> None)
           else None)
      | _ \<Rightarrow> None)"

fun subscribers :: "obj \<Rightarrow> (val \<times> string) list" where
  "subscribers (PlottableList vs subs) = subs"
| "subscribers _ = []"

subsection \<open>Sequences of lifecycle calls\<close>

text \<open>A client may call the four lifecycle methods in any order, any number of times.\<close>

datatype lifecycle_call = CallStart | CallStop | CallIsDone | CallIsRunning

fun do_call :: "stage_impl \<Rightarrow> addr \<Rightarrow> lifecycle_call \<Rightarrow> unit comp" where
  "do_call I self CallStart = Wpd_start I self"
| "do_call I self CallStop = Wpd_stop I self"
| "do_call I self CallIsDone = bnd (Wpd_isDone I self) (\<lambda>_. ret ())"
| "do_call I self CallIsRunning = bnd (Wpd_isRunning I self) (\<lambda>_. ret ())"

fun run_calls :: "stage_impl \<Rightarrow> addr \<Rightarrow> lifecycle_call list \<Rightarrow> unit comp" where
  "run_calls I self [] = ret ()"
| "run_calls I self (c # cs) = andthen (do_call I self c) (run_calls I self cs)"

subsection \<open>A stage implementation and a concrete pipeline\<close>

text \<open>
  Modelled from the spec: the stage contract of section 4.3, as one implementation of
  the lifecycle interface. \<^verbatim>\<open>start()\<close> takes an idle or stopped stage to running;
  \<^verbatim>\<open>stop()\<close> requests a graceful halt of a running stage, which is then stopping until
  its worker has finished the iteration in flight; \<^verbatim>\<open>isDone()\<close> reads the done flag;
  \<^verbatim>\<open>isRunning()\<close> holds while the stage is running and not yet done.
\<close>

definition contract_stage_impl :: stage_impl where
  "contract_stage_impl =
     \<lparr>start_impl = (\<lambda>st. if status st = Idle \<or> status st = Stopped
                           then st\<lparr>status := Running\<rparr> else st),
      stop_impl = (\<lambda>st. if status st = Running then st\<lparr>status := Stopping\<rparr> else st),
      isDone_impl = finished,
      isRunning_impl = (\<lambda>st. status st = Running \<and> \<not> finished st)\<rparr>"

text \<open>
  The concrete inputs of the examples: registries with two windows and one scoring
  function, and a store holding an observer (address 0) and a source queue with two
  samples (address 1). \<open>demo_state st fin xs vs\<close> is the store of the pipeline built
  from them, at a moment when all stages have status \<open>st\<close> and done flag \<open>fin\<close>, the
  queue between pre-processor and window holds \<open>xs\<close> and \<open>vs\<close> are the confirmed peaks.
\<close>

definition demo_constants :: constants where
  "demo_constants =
     \<lparr>SMOOTHING_WINDOWS = [(VStr ''gaussian'', ''GaussianWindow''), (VStr ''hann'', ''HannWindow'')],
      PEAKY_FUNCTIONS = [(VStr ''max_diff'', ''MaxDiff'')]\<rparr>"

definition demo_world :: world where
  "demo_world = \<lparr>heap = [Opaque, Queue [VInt 1, VInt 5]], calls = []\<rparr>"

definition demo_new :: "addr comp" where
  "demo_new = Wpd_new demo_constants (VRef 1) VNone (VStr ''hann'') (VInt 5) (VStr ''max_diff'')
                VNone (VInt 4) VNone (VRef 0)"

definition demo_stage ::
  "string \<Rightarrow> val \<Rightarrow> val \<Rightarrow> val option \<Rightarrow> val \<Rightarrow> lifecycle \<Rightarrow> bool \<Rightarrow> stage" where
  "demo_stage cls ps inq obs outq st fin =
     \<lparr>stage_cls = cls, stage_params = ps, stage_in = inq, stage_obs = obs, stage_out = outq,
      status = st, finished = fin\<rparr>"

definition demo_state :: "lifecycle \<Rightarrow> bool \<Rightarrow> val list \<Rightarrow> val list \<Rightarrow> world" where
  "demo_state st fin xs vs =
     \<lparr>heap =
        [Opaque, Queue [VInt 1, VInt 5],
         WpdObj
           [(''inputQueue'', VRef 1), (''dataQueue'', VRef 3), (''smoothedDataQueue'', VRef 4),
            (''peakScores'', VRef 5), (''peaks'', VRef 6), (''data'', VRef 7),
            (''smoothedData'', VRef 8), (''peakScoreData'', VRef 9), (''peakData'', VRef 10),
            (''confirmedPeaks'', VRef 11), (''preProcessing'', VRef 12), (''window'', VRef 13),
            (''peakScorer'', VRef 14), (''peakDetection'', VRef 15),
            (''postProcessing'', VRef 16)],
         Queue xs, Queue [], Queue [], Queue [],
         PlottableList [] [(VRef 0, ''raw_data'')],
         PlottableList [] [(VRef 0, ''smooth_data'')],
         PlottableList [] [(VRef 0, ''peak_score_data'')],
         PlottableList [] [(VRef 0, ''peak_data'')],
         PlottableList vs [(VRef 0, ''confirmed_peak_data'')],
         Stage (demo_stage ''WpdPreProcessor'' VNone (VRef 1) (Some (VRef 7)) (VRef 3) st fin),
         Stage (demo_stage ''HannWindow'' (VInt 5) (VRef 3) None (VRef 4) st fin),
         Stage (demo_stage ''MaxDiff'' VNone (VRef 4) (Some (VRef 8)) (VRef 5) st fin),
         Stage (demo_stage ''PeakDetector'' (VInt 4) (VRef 5) (Some (VRef 9)) (VRef 6) st fin),
         Stage (demo_stage ''WpdPostProcessor'' VNone (VRef 6) (Some (VRef 10)) (VRef 11) st fin)],
      calls =
        [Call 7 ''subscribe'' [VRef 0, VStr ''raw_data''],
         Call 8 ''subscribe'' [VRef 0, VStr ''smooth_data''],
         Call 9 ''subscribe'' [VRef 0, VStr ''peak_score_data''],
         Call 10 ''subscribe'' [VRef 0, VStr ''peak_data''],
         Call 11 ''subscribe'' [VRef 0, VStr ''confirmed_peak_data'']]\<rparr>"

section \<open>Evaluating the constructor\<close>

lemmas comp_defs = ret_def raise_def bnd_def andthen_def py_and_def py_or_def alloc_def store_def
  log_call_def deref_def getattr_def setattr_def Queue_new_def call_size_def PlottableList_new_def
  call_subscribe_def py_len_def Stage_new_def subscript_def

text \<open>With both type tags in their registries, the constructor returns, and the store
  it leaves is the old one followed by the new \<^verbatim>\<open>Wpd\<close> object, four queues, five
  plottable lists and five stages.\<close>

lemma Wpd_new_result:
  assumes "map_of (SMOOTHING_WINDOWS C) wt = Some wc"
      and "map_of (PEAKY_FUNCTIONS C) ft = Some fc"
  shows "Wpd_new C q pp wt wp ft fp dp po ui s0 =
    Inr (length (heap s0),
      \<lparr>heap = heap s0 @
         [WpdObj
            [(''inputQueue'', q),
             (''dataQueue'', VRef (length (heap s0) + 1)),
             (''smoothedDataQueue'', VRef (length (heap s0) + 2)),
             (''peakScores'', VRef (length (heap s0) + 3)),
             (''peaks'', VRef (length (heap s0) + 4)),
             (''data'', VRef (length (heap s0) + 5)),
             (''smoothedData'', VRef (length (heap s0) + 6)),
             (''peakScoreData'', VRef (length (heap s0) + 7)),
             (''peakData'', VRef (length (heap s0) + 8)),
             (''confirmedPeaks'', VRef (length (heap s0) + 9)),
             (''preProcessing'', VRef (length (heap s0) + 10)),
             (''window'', VRef (length (heap s0) + 11)),
             (''peakScorer'', VRef (length (heap s0) + 12)),
             (''peakDetection'', VRef (length (heap s0) + 13)),
             (''postProcessing'', VRef (length (heap s0) + 14))],
          Queue [], Queue [], Queue [], Queue [],
          PlottableList [] [(ui, ''raw_data'')],
          PlottableList [] [(ui, ''smooth_data'')],
          PlottableList [] [(ui, ''peak_score_data'')],
          PlottableList [] [(ui, ''peak_data'')],
          PlottableList [] [(ui, ''confirmed_peak_data'')],
          Stage \<lparr>stage_cls = ''WpdPreProcessor'', stage_params = pp, stage_in = q,
                  stage_obs = Some (VRef (length (heap s0) + 5)),
                  stage_out = VRef (length (heap s0) + 1), status = Idle, finished = False\<rparr>,
          Stage \<lparr>stage_cls = wc, stage_params = wp,
                  stage_in = VRef (length (heap s0) + 1), stage_obs = None,
                  stage_out = VRef (length (heap s0) + 2), status = Idle, finished = False\<rparr>,
          Stage \<lparr>stage_cls = fc, stage_params = fp,
                  stage_in = VRef (length (heap s0) + 2),
                  stage_obs = Some (VRef (length (heap s0) + 6)),
                  stage_out = VRef (length (heap s0) + 3), status = Idle, finished = False\<rparr>,
          Stage \<lparr>stage_cls = ''PeakDetector'', stage_params = dp,
                  stage_in = VRef (length (heap s0) + 3),
                  stage_obs = Some (VRef (length (heap s0) + 7)),
                  stage_out = VRef (length (heap s0) + 4), status = Idle, finished = False\<rparr>,
          Stage \<lparr>stage_cls = ''WpdPostProcessor'', stage_params = po,
                  stage_in = VRef (length (heap s0) + 4),
                  stage_obs = Some (VRef (length (heap s0) + 8)),
                  stage_out = VRef (length (heap s0) + 9), status = Idle, finished = False\<rparr>],
       calls = calls s0 @
         [Call (length (heap s0) + 5) ''subscribe'' [ui, VStr ''raw_data''],
          Call (length (heap s0) + 6) ''subscribe'' [ui, VStr ''smooth_data''],
          Call (length (heap s0) + 7) ''subscribe'' [ui, VStr ''peak_score_data''],
          Call (length (heap s0) + 8) ''subscribe'' [ui, VStr ''peak_data''],
          Call (length (heap s0) + 9) ''subscribe'' [ui, VStr ''confirmed_peak_data'']]\<rparr>)"
  using assms
  by (simp add: Wpd_new_def Wpd_init_def comp_defs nth_append list_update_append)

text \<open>With a type tag missing from its registry, the constructor raises.\<close>

lemma Wpd_new_KeyError:
  assumes "map_of (SMOOTHING_WINDOWS C) wt = None \<or> map_of (PEAKY_FUNCTIONS C) ft = None"
  shows "\<exists>e. Wpd_new C q pp wt wp ft fp dp po ui s0 = Inl e"
  using assms
  by (cases "map_of (SMOOTHING_WINDOWS C) wt")
     (auto simp add: Wpd_new_def Wpd_init_def comp_defs nth_append list_update_append)

section \<open>Reading attributes and calling stages\<close>

lemma stage_atD:
  assumes "stage_at self name s = Some (a, st)"
  shows "\<exists>d. self < length (heap s) \<and> heap s ! self = WpdObj d \<and> map_of d name = Some (VRef a)
             \<and> a < length (heap s) \<and> heap s ! a = Stage st \<and> a \<noteq> self"
  using assms
  by (auto simp add: stage_at_def attr_of_def split: option.splits val.splits obj.splits if_splits)

lemma getattr_attr_of:
  "attr_of self name s = Some v \<Longrightarrow> getattr self name s = Inr (v, s)"
  by (auto simp add: attr_of_def comp_defs split: if_splits obj.splits)

lemma getattr_None:
  "attr_of self name s = None \<Longrightarrow> getattr self name s = Inl (AttributeError name)"
  by (auto simp add: attr_of_def comp_defs split: if_splits obj.splits)

lemma getattr_stage_at:
  "stage_at self name s = Some (a, st) \<Longrightarrow> getattr self name s = Inr (VRef a, s)"
  by (rule getattr_attr_of)
     (auto simp add: stage_at_def split: option.splits val.splits obj.splits if_splits)

lemma attr_of_same:
  assumes "self < length (heap s)" and "self < length (heap s')"
      and "heap s' ! self = heap s ! self"
  shows "attr_of self name s' = attr_of self name s"
  using assms by (simp add: attr_of_def)

lemma stage_at_calls [simp]:
  "stage_at self name (s\<lparr>calls := c\<rparr>) = stage_at self name s"
  by (simp add: stage_at_def attr_of_def split: option.splits val.splits)

lemma call_size_Queue:
  assumes "a < length (heap s)" and "heap s ! a = Queue xs"
  shows "call_size (VRef a) s = Inr (length xs, s\<lparr>calls := calls s @ [Call a ''size'' []]\<rparr>)"
  using assms by (simp add: call_size_def comp_defs)

lemma py_len_PlottableList:
  assumes "a < length (heap s)" and "heap s ! a = PlottableList vs subs"
  shows "py_len (VRef a) s = Inr (length vs, s\<lparr>calls := calls s @ [Call a ''__len__'' []]\<rparr>)"
  using assms by (simp add: py_len_def comp_defs)

lemma isDone_stage_at:
  assumes "stage_at self name s = Some (a, st)"
  shows "bnd (getattr self name) (call_isDone I) s
           = Inr (isDone_impl I st, s\<lparr>calls := calls s @ [Call a ''isDone'' []]\<rparr>)"
  using stage_atD[OF assms] getattr_stage_at[OF assms]
  by (auto simp add: bnd_def call_isDone_def deref_def andthen_def log_call_def ret_def)

lemma isRunning_stage_at:
  assumes "stage_at self name s = Some (a, st)"
  shows "bnd (getattr self name) (call_isRunning I) s
           = Inr (isRunning_impl I st, s\<lparr>calls := calls s @ [Call a ''isRunning'' []]\<rparr>)"
  using stage_atD[OF assms] getattr_stage_at[OF assms]
  by (auto simp add: bnd_def call_isRunning_def deref_def andthen_def log_call_def ret_def)

section \<open>The lifecycle methods on a wired pipeline\<close>

lemma Wpd_start_result:
  assumes "stage_at self ''preProcessing'' s = Some (a1, p1)"
      and "stage_at self ''window'' s = Some (a2, p2)"
      and "stage_at self ''peakScorer'' s = Some (a3, p3)"
      and "stage_at self ''peakDetection'' s = Some (a4, p4)"
      and "stage_at self ''postProcessing'' s = Some (a5, p5)"
      and "distinct [a1, a2, a3, a4, a5]"
  shows "Wpd_start I self s = Inr ((),
           s\<lparr>heap := (heap s)[a1 := Stage (start_impl I p1), a2 := Stage (start_impl I p2),
                              a3 := Stage (start_impl I p3), a4 := Stage (start_impl I p4),
                              a5 := Stage (start_impl I p5)],
             calls := calls s @ [Call a1 ''start'' [], Call a2 ''start'' [], Call a3 ''start'' [],
                                 Call a4 ''start'' [], Call a5 ''start'' []]\<rparr>)"
proof -
  from stage_atD[OF assms(1)] stage_atD[OF assms(2)] stage_atD[OF assms(3)]
       stage_atD[OF assms(4)] stage_atD[OF assms(5)]
  obtain d where d: "self < length (heap s)" "heap s ! self = WpdObj d"
    and m: "map_of d ''preProcessing'' = Some (VRef a1)" "map_of d ''window'' = Some (VRef a2)"
       "map_of d ''peakScorer'' = Some (VRef a3)" "map_of d ''peakDetection'' = Some (VRef a4)"
       "map_of d ''postProcessing'' = Some (VRef a5)"
    and a: "a1 < length (heap s)" "a2 < length (heap s)" "a3 < length (heap s)"
       "a4 < length (heap s)" "a5 < length (heap s)"
    and h: "heap s ! a1 = Stage p1" "heap s ! a2 = Stage p2" "heap s ! a3 = Stage p3"
       "heap s ! a4 = Stage p4" "heap s ! a5 = Stage p5"
    and n: "a1 \<noteq> self" "a2 \<noteq> self" "a3 \<noteq> self" "a4 \<noteq> self" "a5 \<noteq> self"
    by auto
  from assms(6) d m a h n show ?thesis
    by (simp add: Wpd_start_def call_start_def comp_defs)
qed

lemma Wpd_stop_result:
  assumes "stage_at self ''preProcessing'' s = Some (a1, p1)"
      and "stage_at self ''window'' s = Some (a2, p2)"
      and "stage_at self ''peakScorer'' s = Some (a3, p3)"
      and "stage_at self ''peakDetection'' s = Some (a4, p4)"
      and "stage_at self ''postProcessing'' s = Some (a5, p5)"
      and "distinct [a1, a2, a3, a4, a5]"
  shows "Wpd_stop I self s = Inr ((),
           s\<lparr>heap := (heap s)[a1 := Stage (stop_impl I p1), a2 := Stage (stop_impl I p2),
                              a3 := Stage (stop_impl I p3), a4 := Stage (stop_impl I p4),
                              a5 := Stage (stop_impl I p5)],
             calls := calls s @ [Call a1 ''stop'' [], Call a2 ''stop'' [], Call a3 ''stop'' [],
                                 Call a4 ''stop'' [], Call a5 ''stop'' []]\<rparr>)"
proof -
  from stage_atD[OF assms(1)] stage_atD[OF assms(2)] stage_atD[OF assms(3)]
       stage_atD[OF assms(4)] stage_atD[OF assms(5)]
  obtain d where d: "self < length (heap s)" "heap s ! self = WpdObj d"
    and m: "map_of d ''preProcessing'' = Some (VRef a1)" "map_of d ''window'' = Some (VRef a2)"
       "map_of d ''peakScorer'' = Some (VRef a3)" "map_of d ''peakDetection'' = Some (VRef a4)"
       "map_of d ''postProcessing'' = Some (VRef a5)"
    and a: "a1 < length (heap s)" "a2 < length (heap s)" "a3 < length (heap s)"
       "a4 < length (heap s)" "a5 < length (heap s)"
    and h: "heap s ! a1 = Stage p1" "heap s ! a2 = Stage p2" "heap s ! a3 = Stage p3"
       "heap s ! a4 = Stage p4" "heap s ! a5 = Stage p5"
    and n: "a1 \<noteq> self" "a2 \<noteq> self" "a3 \<noteq> self" "a4 \<noteq> self" "a5 \<noteq> self"
    by auto
  from assms(6) d m a h n show ?thesis
    by (simp add: Wpd_stop_def call_stop_def comp_defs)
qed

lemma Wpd_isDone_result:
  assumes "stage_at self ''preProcessing'' s = Some (a1, p1)"
      and "stage_at self ''window'' s = Some (a2, p2)"
      and "stage_at self ''peakScorer'' s = Some (a3, p3)"
      and "stage_at self ''peakDetection'' s = Some (a4, p4)"
      and "stage_at self ''postProcessing'' s = Some (a5, p5)"
  shows "\<exists>t. Wpd_isDone I self s
            = Inr (isDone_impl I p1 \<and> isDone_impl I p2 \<and> isDone_impl I p3
                     \<and> isDone_impl I p4 \<and> isDone_impl I p5, s\<lparr>calls := calls s @ t\<rparr>)"
  using assms
  by (auto simp add: Wpd_isDone_def py_and_def bnd_def[of "bnd _ _"] isDone_stage_at ret_def)

lemma Wpd_isRunning_result:
  assumes "stage_at self ''preProcessing'' s = Some (a1, p1)"
      and "stage_at self ''window'' s = Some (a2, p2)"
      and "stage_at self ''peakScorer'' s = Some (a3, p3)"
      and "stage_at self ''peakDetection'' s = Some (a4, p4)"
      and "stage_at self ''postProcessing'' s = Some (a5, p5)"
  shows "\<exists>t. Wpd_isRunning I self s
            = Inr (isRunning_impl I p1 \<or> isRunning_impl I p2 \<or> isRunning_impl I p3
                     \<or> isRunning_impl I p4 \<or> isRunning_impl I p5, s\<lparr>calls := calls s @ t\<rparr>)"
  using assms
  by (auto simp add: Wpd_isRunning_def py_or_def bnd_def[of "bnd _ _"] isRunning_stage_at ret_def)

text \<open>The stage an attribute refers to after the five stage objects were replaced.\<close>

lemma stage_at_replaced:
  assumes "stage_at self n1 s = Some (a1, p1)"
      and "stage_at self n2 s = Some (a2, p2)"
      and "stage_at self n3 s = Some (a3, p3)"
      and "stage_at self n4 s = Some (a4, p4)"
      and "stage_at self n5 s = Some (a5, p5)"
      and "distinct [a1, a2, a3, a4, a5]"
      and "heap s' = (heap s)[a1 := Stage q1, a2 := Stage q2, a3 := Stage q3,
                               a4 := Stage q4, a5 := Stage q5]"
  shows "stage_at self n1 s' = Some (a1, q1)"
    and "stage_at self n2 s' = Some (a2, q2)"
    and "stage_at self n3 s' = Some (a3, q3)"
    and "stage_at self n4 s' = Some (a4, q4)"
    and "stage_at self n5 s' = Some (a5, q5)"
proof -
  from stage_atD[OF assms(1)] stage_atD[OF assms(2)] stage_atD[OF assms(3)]
       stage_atD[OF assms(4)] stage_atD[OF assms(5)]
  obtain d where f: "self < length (heap s)" "heap s ! self = WpdObj d"
    "map_of d n1 = Some (VRef a1)" "map_of d n2 = Some (VRef a2)" "map_of d n3 = Some (VRef a3)"
    "map_of d n4 = Some (VRef a4)" "map_of d n5 = Some (VRef a5)"
    "a1 \<noteq> self" "a2 \<noteq> self" "a3 \<noteq> self" "a4 \<noteq> self" "a5 \<noteq> self"
    "a1 < length (heap s)" "a2 < length (heap s)" "a3 < length (heap s)"
    "a4 < length (heap s)" "a5 < length (heap s)"
    by auto
  from f assms(6) show "stage_at self n1 s' = Some (a1, q1)"
    by (auto simp add: stage_at_def attr_of_def assms(7) nth_list_update)
  from f assms(6) show "stage_at self n2 s' = Some (a2, q2)"
    by (auto simp add: stage_at_def attr_of_def assms(7) nth_list_update)
  from f assms(6) show "stage_at self n3 s' = Some (a3, q3)"
    by (auto simp add: stage_at_def attr_of_def assms(7) nth_list_update)
  from f assms(6) show "stage_at self n4 s' = Some (a4, q4)"
    by (auto simp add: stage_at_def attr_of_def assms(7) nth_list_update)
  from f assms(6) show "stage_at self n5 s' = Some (a5, q5)"
    by (auto simp add: stage_at_def attr_of_def assms(7) nth_list_update)
qed

text \<open>A lifecycle call returns, replaces stage objects by stage objects and changes no
  other object; so does any sequence of such calls.\<close>

lemma do_call_frame:
  assumes "stage_at self ''preProcessing'' s = Some (a1, p1)"
      and "stage_at self ''window'' s = Some (a2, p2)"
      and "stage_at self ''peakScorer'' s = Some (a3, p3)"
      and "stage_at self ''peakDetection'' s = Some (a4, p4)"
      and "stage_at self ''postProcessing'' s = Some (a5, p5)"
      and "distinct [a1, a2, a3, a4, a5]"
  shows "\<exists>s' q1 q2 q3 q4 q5. do_call I self c s = Inr ((), s')
           \<and> length (heap s') = length (heap s)
           \<and> (\<forall>a. a \<notin> {a1, a2, a3, a4, a5} \<longrightarrow> heap s' ! a = heap s ! a)
           \<and> stage_at self ''preProcessing'' s' = Some (a1, q1)
           \<and> stage_at self ''window'' s' = Some (a2, q2)
           \<and> stage_at self ''peakScorer'' s' = Some (a3, q3)
           \<and> stage_at self ''peakDetection'' s' = Some (a4, q4)
           \<and> stage_at self ''postProcessing'' s' = Some (a5, q5)"
proof (cases c)
  case CallStart
  define s' where "s' = snd (projr (Wpd_start I self s))"
  have r: "Wpd_start I self s = Inr ((), s')"
    by (simp add: s'_def Wpd_start_result[OF assms])
  have h: "heap s' = (heap s)[a1 := Stage (start_impl I p1), a2 := Stage (start_impl I p2),
                              a3 := Stage (start_impl I p3), a4 := Stage (start_impl I p4),
                              a5 := Stage (start_impl I p5)]"
    by (simp add: s'_def Wpd_start_result[OF assms])
  have "length (heap s') = length (heap s)"
    and "\<forall>a. a \<notin> {a1, a2, a3, a4, a5} \<longrightarrow> heap s' ! a = heap s ! a"
    by (simp_all add: h)
  with r stage_at_replaced[OF assms h] show ?thesis
    by (simp add: CallStart)
next
  case CallStop
  define s' where "s' = snd (projr (Wpd_stop I self s))"
  have r: "Wpd_stop I self s = Inr ((), s')"
    by (simp add: s'_def Wpd_stop_result[OF assms])
  have h: "heap s' = (heap s)[a1 := Stage (stop_impl I p1), a2 := Stage (stop_impl I p2),
                              a3 := Stage (stop_impl I p3), a4 := Stage (stop_impl I p4),
                              a5 := Stage (stop_impl I p5)]"
    by (simp add: s'_def Wpd_stop_result[OF assms])
  have "length (heap s') = length (heap s)"
    and "\<forall>a. a \<notin> {a1, a2, a3, a4, a5} \<longrightarrow> heap s' ! a = heap s ! a"
    by (simp_all add: h)
  with r stage_at_replaced[OF assms h] show ?thesis
    by (simp add: CallStop)
next
  case CallIsDone
  from Wpd_isDone_result[OF assms(1-5), of I] obtain t b
    where "Wpd_isDone I self s = Inr (b, s\<lparr>calls := calls s @ t\<rparr>)" by blast
  with assms(1-5) show ?thesis
    by (simp add: CallIsDone bnd_def ret_def)
next
  case CallIsRunning
  from Wpd_isRunning_result[OF assms(1-5), of I] obtain t b
    where "Wpd_isRunning I self s = Inr (b, s\<lparr>calls := calls s @ t\<rparr>)" by blast
  with assms(1-5) show ?thesis
    by (simp add: CallIsRunning bnd_def ret_def)
qed

lemma run_calls_frame:
  assumes "stage_at self ''preProcessing'' s = Some (a1, p1)"
      and "stage_at self ''window'' s = Some (a2, p2)"
      and "stage_at self ''peakScorer'' s = Some (a3, p3)"
      and "stage_at self ''peakDetection'' s = Some (a4, p4)"
      and "stage_at self ''postProcessing'' s = Some (a5, p5)"
      and "distinct [a1, a2, a3, a4, a5]"
  shows "\<exists>s'. run_calls I self cs s = Inr ((), s')
           \<and> length (heap s') = length (heap s)
           \<and> (\<forall>a. a \<notin> {a1, a2, a3, a4, a5} \<longrightarrow> heap s' ! a = heap s ! a)"
  using assms
proof (induction cs arbitrary: s p1 p2 p3 p4 p5)
  case Nil
  then show ?case by (simp add: ret_def)
next
  case (Cons c cs)
  from do_call_frame[OF Cons.prems, of I c]
  obtain s1 q1 q2 q3 q4 q5 where step: "do_call I self c s = Inr ((), s1)"
    and len: "length (heap s1) = length (heap s)"
    and same: "\<forall>a. a \<notin> {a1, a2, a3, a4, a5} \<longrightarrow> heap s1 ! a = heap s ! a"
    and st: "stage_at self ''preProcessing'' s1 = Some (a1, q1)"
      "stage_at self ''window'' s1 = Some (a2, q2)"
      "stage_at self ''peakScorer'' s1 = Some (a3, q3)"
      "stage_at self ''peakDetection'' s1 = Some (a4, q4)"
      "stage_at self ''postProcessing'' s1 = Some (a5, q5)"
    by blast
  from Cons.IH[OF st Cons.prems(6)]
  obtain s' where rest: "run_calls I self cs s1 = Inr ((), s')"
    and len': "length (heap s') = length (heap s1)"
    and same': "\<forall>a. a \<notin> {a1, a2, a3, a4, a5} \<longrightarrow> heap s' ! a = heap s1 ! a"
    by blast
  from step rest have "run_calls I self (c # cs) s = Inr ((), s')"
    by (simp add: andthen_def bnd_def)
  with len len' same same' show ?case by simp
qed

section \<open>What the constructor builds\<close>

lemma Wpd_new_InrD:
  assumes "Wpd_new C q pp wt wp ft fp dp po ui s0 = Inr (self, s)"
  shows "\<exists>wc fc. map_of (SMOOTHING_WINDOWS C) wt = Some wc
                \<and> map_of (PEAKY_FUNCTIONS C) ft = Some fc"
proof (rule ccontr)
  assume "\<not> ?thesis"
  then have "map_of (SMOOTHING_WINDOWS C) wt = None \<or> map_of (PEAKY_FUNCTIONS C) ft = None"
    by auto
  from Wpd_new_KeyError[OF this, of q pp wp fp dp po ui s0] assms show False
    by auto
qed

text \<open>A constructed pipeline, attribute by attribute and object by object.\<close>

lemma constructed_attrs:
  assumes "Wpd_new C q pp wt wp ft fp dp po ui s0 = Inr (self, s)"
  shows "self = length (heap s0)"
    and "length (heap s) = length (heap s0) + 15"
    and "take (length (heap s0)) (heap s) = heap s0"
    and "attr_of self ''inputQueue'' s = Some q"
    and "attr_of self ''dataQueue'' s = Some (VRef (self + 1))"
    and "attr_of self ''smoothedDataQueue'' s = Some (VRef (self + 2))"
    and "attr_of self ''peakScores'' s = Some (VRef (self + 3))"
    and "attr_of self ''peaks'' s = Some (VRef (self + 4))"
    and "attr_of self ''data'' s = Some (VRef (self + 5))"
    and "attr_of self ''smoothedData'' s = Some (VRef (self + 6))"
    and "attr_of self ''peakScoreData'' s = Some (VRef (self + 7))"
    and "attr_of self ''peakData'' s = Some (VRef (self + 8))"
    and "attr_of self ''confirmedPeaks'' s = Some (VRef (self + 9))"
    and "attr_of self ''peakyData'' s = None"
proof -
  from Wpd_new_InrD[OF assms] obtain wc fc
    where r: "map_of (SMOOTHING_WINDOWS C) wt = Some wc" "map_of (PEAKY_FUNCTIONS C) ft = Some fc"
    by blast
  have s: "s = snd (projr (Wpd_new C q pp wt wp ft fp dp po ui s0))"
    by (simp add: assms)
  have e: "self = fst (projr (Wpd_new C q pp wt wp ft fp dp po ui s0))"
    by (simp add: assms)
  show "self = length (heap s0)" by (simp add: e Wpd_new_result[OF r])
  show "length (heap s) = length (heap s0) + 15"
    by (simp add: s Wpd_new_result[OF r])
  show "take (length (heap s0)) (heap s) = heap s0"
    by (simp add: s Wpd_new_result[OF r])
  show "attr_of self ''inputQueue'' s = Some q"
    by (simp add: e s Wpd_new_result[OF r] attr_of_def)
  show "attr_of self ''dataQueue'' s = Some (VRef (self + 1))"
    by (simp add: e s Wpd_new_result[OF r] attr_of_def)
  show "attr_of self ''smoothedDataQueue'' s = Some (VRef (self + 2))"
    by (simp add: e s Wpd_new_result[OF r] attr_of_def)
  show "attr_of self ''peakScores'' s = Some (VRef (self + 3))"
    by (simp add: e s Wpd_new_result[OF r] attr_of_def)
  show "attr_of self ''peaks'' s = Some (VRef (self + 4))"
    by (simp add: e s Wpd_new_result[OF r] attr_of_def)
  show "attr_of self ''data'' s = Some (VRef (self + 5))"
    by (simp add: e s Wpd_new_result[OF r] attr_of_def)
  show "attr_of self ''smoothedData'' s = Some (VRef (self + 6))"
    by (simp add: e s Wpd_new_result[OF r] attr_of_def)
  show "attr_of self ''peakScoreData'' s = Some (VRef (self + 7))"
    by (simp add: e s Wpd_new_result[OF r] attr_of_def)
  show "attr_of self ''peakData'' s = Some (VRef (self + 8))"
    by (simp add: e s Wpd_new_result[OF r] attr_of_def)
  show "attr_of self ''confirmedPeaks'' s = Some (VRef (self + 9))"
    by (simp add: e s Wpd_new_result[OF r] attr_of_def)
  show "attr_of self ''peakyData'' s = None"
    by (simp add: e s Wpd_new_result[OF r] attr_of_def)
qed

lemma constructed_objects:
  assumes "Wpd_new C q pp wt wp ft fp dp po ui s0 = Inr (self, s)"
  shows "heap s ! (self + 1) = Queue []"
    and "heap s ! (self + 2) = Queue []"
    and "heap s ! (self + 3) = Queue []"
    and "heap s ! (self + 4) = Queue []"
    and "heap s ! (self + 5) = PlottableList [] [(ui, ''raw_data'')]"
    and "heap s ! (self + 6) = PlottableList [] [(ui, ''smooth_data'')]"
    and "heap s ! (self + 7) = PlottableList [] [(ui, ''peak_score_data'')]"
    and "heap s ! (self + 8) = PlottableList [] [(ui, ''peak_data'')]"
    and "heap s ! (self + 9) = PlottableList [] [(ui, ''confirmed_peak_data'')]"
proof -
  from Wpd_new_InrD[OF assms] obtain wc fc
    where r: "map_of (SMOOTHING_WINDOWS C) wt = Some wc" "map_of (PEAKY_FUNCTIONS C) ft = Some fc"
    by blast
  have s: "s = snd (projr (Wpd_new C q pp wt wp ft fp dp po ui s0))"
    by (simp add: assms)
  have e: "self = fst (projr (Wpd_new C q pp wt wp ft fp dp po ui s0))"
    by (simp add: assms)
  show "heap s ! (self + 1) = Queue []" 
    by (simp add: e s Wpd_new_result[OF r] nth_append)
  show "heap s ! (self + 2) = Queue []"
    by (simp add: e s Wpd_new_result[OF r] nth_append)
  show "heap s ! (self + 3) = Queue []"
    by (simp add: e s Wpd_new_result[OF r] nth_append)
  show "heap s ! (self + 4) = Queue []"
    by (simp add: e s Wpd_new_result[OF r] nth_append)
  show "heap s ! (self + 5) = PlottableList [] [(ui, ''raw_data'')]"
    by (simp add: e s Wpd_new_result[OF r] nth_append)
  show "heap s ! (self + 6) = PlottableList [] [(ui, ''smooth_data'')]"
    by (simp add: e s Wpd_new_result[OF r] nth_append)
  show "heap s ! (self + 7) = PlottableList [] [(ui, ''peak_score_data'')]"
    by (simp add: e s Wpd_new_result[OF r] nth_append)
  show "heap s ! (self + 8) = PlottableList [] [(ui, ''peak_data'')]"
    by (simp add: e s Wpd_new_result[OF r] nth_append)
  show "heap s ! (self + 9) = PlottableList [] [(ui, ''confirmed_peak_data'')]"
    by (simp add: e s Wpd_new_result[OF r] nth_append)
qed

lemma constructed_stages:
  assumes "Wpd_new C q pp wt wp ft fp dp po ui s0 = Inr (self, s)"
  shows "\<exists>wc fc. map_of (SMOOTHING_WINDOWS C) wt = Some wc
           \<and> map_of (PEAKY_FUNCTIONS C) ft = Some fc
           \<and> stage_at self ''preProcessing'' s = Some (self + 10,
                 \<lparr>stage_cls = ''WpdPreProcessor'', stage_params = pp, stage_in = q,
                  stage_obs = Some (VRef (self + 5)), stage_out = VRef (self + 1),
                  status = Idle, finished = False\<rparr>)
           \<and> stage_at self ''window'' s = Some (self + 11,
                 \<lparr>stage_cls = wc, stage_params = wp, stage_in = VRef (self + 1),
                  stage_obs = None, stage_out = VRef (self + 2),
                  status = Idle, finished = False\<rparr>)
           \<and> stage_at self ''peakScorer'' s = Some (self + 12,
                 \<lparr>stage_cls = fc, stage_params = fp, stage_in = VRef (self + 2),
                  stage_obs = Some (VRef (self + 6)), stage_out = VRef (self + 3),
                  status = Idle, finished = False\<rparr>)
           \<and> stage_at self ''peakDetection'' s = Some (self + 13,
                 \<lparr>stage_cls = ''PeakDetector'', stage_params = dp, stage_in = VRef (self + 3),
                  stage_obs = Some (VRef (self + 7)), stage_out = VRef (self + 4),
                  status = Idle, finished = False\<rparr>)
           \<and> stage_at self ''postProcessing'' s = Some (self + 14,
                 \<lparr>stage_cls = ''WpdPostProcessor'', stage_params = po, stage_in = VRef (self + 4),
                  stage_obs = Some (VRef (self + 8)), stage_out = VRef (self + 9),
                  status = Idle, finished = False\<rparr>)"
proof -
  from Wpd_new_InrD[OF assms] obtain wc fc
    where r: "map_of (SMOOTHING_WINDOWS C) wt = Some wc" "map_of (PEAKY_FUNCTIONS C) ft = Some fc"
    by blast
  have s: "s = snd (projr (Wpd_new C q pp wt wp ft fp dp po ui s0))"
    by (simp add: assms)
  have e: "self = fst (projr (Wpd_new C q pp wt wp ft fp dp po ui s0))"
    by (simp add: assms)
  have "stage_at self ''preProcessing'' s = Some (self + 10,
                 \<lparr>stage_cls = ''WpdPreProcessor'', stage_params = pp, stage_in = q,
                  stage_obs = Some (VRef (self + 5)), stage_out = VRef (self + 1),
                  status = Idle, finished = False\<rparr>)"
    by (simp add: e s Wpd_new_result[OF r] stage_at_def attr_of_def nth_append)
  moreover have "stage_at self ''window'' s = Some (self + 11,
                 \<lparr>stage_cls = wc, stage_params = wp, stage_in = VRef (self + 1),
                  stage_obs = None, stage_out = VRef (self + 2),
                  status = Idle, finished = False\<rparr>)"
    by (simp add: e s Wpd_new_result[OF r] stage_at_def attr_of_def nth_append)
  moreover have "stage_at self ''peakScorer'' s = Some (self + 12,
                 \<lparr>stage_cls = fc, stage_params = fp, stage_in = VRef (self + 2),
                  stage_obs = Some (VRef (self + 6)), stage_out = VRef (self + 3),
                  status = Idle, finished = False\<rparr>)"
    by (simp add: e s Wpd_new_result[OF r] stage_at_def attr_of_def nth_append)
  moreover have "stage_at self ''peakDetection'' s = Some (self + 13,
                 \<lparr>stage_cls = ''PeakDetector'', stage_params = dp, stage_in = VRef (self + 3),
                  stage_obs = Some (VRef (self + 7)), stage_out = VRef (self + 4),
                  status = Idle, finished = False\<rparr>)"
    by (simp add: e s Wpd_new_result[OF r] stage_at_def attr_of_def nth_append)
  moreover have "stage_at self ''postProcessing'' s = Some (self + 14,
                 \<lparr>stage_cls = ''WpdPostProcessor'', stage_params = po, stage_in = VRef (self + 4),
                  stage_obs = Some (VRef (self + 8)), stage_out = VRef (self + 9),
                  status = Idle, finished = False\<rparr>)"
    by (simp add: e s Wpd_new_result[OF r] stage_at_def attr_of_def nth_append)
  ultimately show ?thesis using r by blast
qed

section \<open>The concrete pipeline\<close>

lemma demo_tags:
  "map_of (SMOOTHING_WINDOWS demo_constants) (VStr ''hann'') = Some ''HannWindow''"
  "map_of (PEAKY_FUNCTIONS demo_constants) (VStr ''max_diff'') = Some ''MaxDiff''"
  by (simp_all add: demo_constants_def)

lemma demo_new_state: "demo_new demo_world = Inr (2, demo_state Idle False [] [])"
  unfolding demo_new_def
  by (simp add: Wpd_new_result[OF demo_tags] demo_world_def demo_state_def demo_stage_def)

lemma demo_stages:
  "stage_at 2 ''preProcessing'' (demo_state st fin xs vs)
     = Some (12, demo_stage ''WpdPreProcessor'' VNone (VRef 1) (Some (VRef 7)) (VRef 3) st fin)"
  "stage_at 2 ''window'' (demo_state st fin xs vs)
     = Some (13, demo_stage ''HannWindow'' (VInt 5) (VRef 3) None (VRef 4) st fin)"
  "stage_at 2 ''peakScorer'' (demo_state st fin xs vs)
     = Some (14, demo_stage ''MaxDiff'' VNone (VRef 4) (Some (VRef 8)) (VRef 5) st fin)"
  "stage_at 2 ''peakDetection'' (demo_state st fin xs vs)
     = Some (15, demo_stage ''PeakDetector'' (VInt 4) (VRef 5) (Some (VRef 9)) (VRef 6) st fin)"
  "stage_at 2 ''postProcessing'' (demo_state st fin xs vs)
     = Some (16, demo_stage ''WpdPostProcessor'' VNone (VRef 6) (Some (VRef 10)) (VRef 11) st fin)"
  by (simp_all add: stage_at_def attr_of_def demo_state_def)

lemma demo_distinct: "distinct [12, 13, 14, 15, 16 :: nat]"
  by simp

lemma demo_self:
  "2 < length (heap (demo_state st fin xs vs))"
  "heap (demo_state st fin xs vs) ! 2 = heap (demo_state Idle False [] []) ! 2"
  by (simp_all add: demo_state_def)

section \<open>Properties of the pipeline\<close>

subsection \<open>Status queries\<close>

text \<open>
  C1. For every \<^verbatim>\<open>Wpd\<close> pipeline, \<^verbatim>\<open>isDone()\<close> returns true if and only if all five
  stages (pre-processor, window, peak scorer, peak detector, post-processor) report done:
  its result is the conjunction of the five stages' \<^verbatim>\<open>isDone()\<close> results. The pipeline
  is any \<^verbatim>\<open>Wpd\<close> object whose five stage attributes refer to stage objects, in any state
  of these stages and for any implementation of the stages; the query returns and leaves
  every object of the store as it was.
\<close>

theorem Wpd_isDone_conj:
  assumes "stage_at self ''preProcessing'' s = Some (a1, p1)"
      and "stage_at self ''window'' s = Some (a2, p2)"
      and "stage_at self ''peakScorer'' s = Some (a3, p3)"
      and "stage_at self ''peakDetection'' s = Some (a4, p4)"
      and "stage_at self ''postProcessing'' s = Some (a5, p5)"
  shows "\<exists>s'. Wpd_isDone I self s
            = Inr (isDone_impl I p1 \<and> isDone_impl I p2 \<and> isDone_impl I p3
                     \<and> isDone_impl I p4 \<and> isDone_impl I p5, s')
          \<and> heap s' = heap s"
proof -
  from Wpd_isDone_result[OF assms, of I] obtain t where
    "Wpd_isDone I self s
       = Inr (isDone_impl I p1 \<and> isDone_impl I p2 \<and> isDone_impl I p3
                \<and> isDone_impl I p4 \<and> isDone_impl I p5, s\<lparr>calls := calls s @ t\<rparr>)"
    by blast
  then show ?thesis by simp
qed

theorem Wpd_isDone_conj_witness:
  "stage_at 2 ''preProcessing'' (demo_state Stopped True [] [VInt 5])
     = Some (12, demo_stage ''WpdPreProcessor'' VNone (VRef 1) (Some (VRef 7)) (VRef 3) Stopped True)
   \<and> stage_at 2 ''window'' (demo_state Stopped True [] [VInt 5])
     = Some (13, demo_stage ''HannWindow'' (VInt 5) (VRef 3) None (VRef 4) Stopped True)
   \<and> stage_at 2 ''peakScorer'' (demo_state Stopped True [] [VInt 5])
     = Some (14, demo_stage ''MaxDiff'' VNone (VRef 4) (Some (VRef 8)) (VRef 5) Stopped True)
   \<and> stage_at 2 ''peakDetection'' (demo_state Stopped True [] [VInt 5])
     = Some (15, demo_stage ''PeakDetector'' (VInt 4) (VRef 5) (Some (VRef 9)) (VRef 6) Stopped True)
   \<and> stage_at 2 ''postProcessing'' (demo_state Stopped True [] [VInt 5])
     = Some (16, demo_stage ''WpdPostProcessor'' VNone (VRef 6) (Some (VRef 10)) (VRef 11) Stopped True)
   \<and> (\<exists>s'. Wpd_isDone contract_stage_impl 2 (demo_state Stopped True [] [VInt 5]) = Inr (True, s')
            \<and> heap s' = heap (demo_state Stopped True [] [VInt 5]))"
  using Wpd_isDone_conj[OF demo_stages[of Stopped True "[]" "[VInt 5]"], of contract_stage_impl]
    demo_stages[of Stopped True "[]" "[VInt 5]"]
  by (simp add: contract_stage_impl_def demo_stage_def)

text \<open>
  C2. For every \<^verbatim>\<open>Wpd\<close> pipeline, \<^verbatim>\<open>isRunning()\<close> returns true if and only if at
  least one of the five stages reports running: its result is the disjunction of the five
  stages' \<^verbatim>\<open>isRunning()\<close> results, for any implementation of the stages, so it is false
  once no stage reports running. With stages that follow the stage contract, it is false
  when each of the five stages is done or stopped.
\<close>

theorem Wpd_isRunning_disj:
  assumes "stage_at self ''preProcessing'' s = Some (a1, p1)"
      and "stage_at self ''window'' s = Some (a2, p2)"
      and "stage_at self ''peakScorer'' s = Some (a3, p3)"
      and "stage_at self ''peakDetection'' s = Some (a4, p4)"
      and "stage_at self ''postProcessing'' s = Some (a5, p5)"
  shows "(\<exists>s'. Wpd_isRunning I self s
            = Inr (isRunning_impl I p1 \<or> isRunning_impl I p2 \<or> isRunning_impl I p3
                     \<or> isRunning_impl I p4 \<or> isRunning_impl I p5, s')
          \<and> heap s' = heap s)
       \<and> ((finished p1 \<or> status p1 = Stopped) \<and> (finished p2 \<or> status p2 = Stopped)
            \<and> (finished p3 \<or> status p3 = Stopped) \<and> (finished p4 \<or> status p4 = Stopped)
            \<and> (finished p5 \<or> status p5 = Stopped)
          \<longrightarrow> (\<exists>s'. Wpd_isRunning contract_stage_impl self s = Inr (False, s')
                   \<and> heap s' = heap s))"
proof (intro conjI impI)
  from Wpd_isRunning_result[OF assms, of I] obtain t where
    "Wpd_isRunning I self s
       = Inr (isRunning_impl I p1 \<or> isRunning_impl I p2 \<or> isRunning_impl I p3
                \<or> isRunning_impl I p4 \<or> isRunning_impl I p5, s\<lparr>calls := calls s @ t\<rparr>)"
    by blast
  then show "\<exists>s'. Wpd_isRunning I self s
            = Inr (isRunning_impl I p1 \<or> isRunning_impl I p2 \<or> isRunning_impl I p3
                     \<or> isRunning_impl I p4 \<or> isRunning_impl I p5, s')
          \<and> heap s' = heap s"
    by simp
next
  assume q: "(finished p1 \<or> status p1 = Stopped) \<and> (finished p2 \<or> status p2 = Stopped)
            \<and> (finished p3 \<or> status p3 = Stopped) \<and> (finished p4 \<or> status p4 = Stopped)
            \<and> (finished p5 \<or> status p5 = Stopped)"
  from Wpd_isRunning_result[OF assms, of contract_stage_impl] obtain t where
    "Wpd_isRunning contract_stage_impl self s
       = Inr (isRunning_impl contract_stage_impl p1 \<or> isRunning_impl contract_stage_impl p2
                \<or> isRunning_impl contract_stage_impl p3 \<or> isRunning_impl contract_stage_impl p4
                \<or> isRunning_impl contract_stage_impl p5, s\<lparr>calls := calls s @ t\<rparr>)"
    by blast
  moreover have "\<not> (isRunning_impl contract_stage_impl p1 \<or> isRunning_impl contract_stage_impl p2
                \<or> isRunning_impl contract_stage_impl p3 \<or> isRunning_impl contract_stage_impl p4
                \<or> isRunning_impl contract_stage_impl p5)"
    using q by (auto simp add: contract_stage_impl_def)
  ultimately show "\<exists>s'. Wpd_isRunning contract_stage_impl self s = Inr (False, s')
                   \<and> heap s' = heap s"
    by simp
qed

theorem Wpd_isRunning_disj_witness:
  "stage_at 2 ''preProcessing'' (demo_state Running False [VInt 7] [])
     = Some (12, demo_stage ''WpdPreProcessor'' VNone (VRef 1) (Some (VRef 7)) (VRef 3) Running False)
   \<and> stage_at 2 ''window'' (demo_state Running False [VInt 7] [])
     = Some (13, demo_stage ''HannWindow'' (VInt 5) (VRef 3) None (VRef 4) Running False)
   \<and> stage_at 2 ''peakScorer'' (demo_state Running False [VInt 7] [])
     = Some (14, demo_stage ''MaxDiff'' VNone (VRef 4) (Some (VRef 8)) (VRef 5) Running False)
   \<and> stage_at 2 ''peakDetection'' (demo_state Running False [VInt 7] [])
     = Some (15, demo_stage ''PeakDetector'' (VInt 4) (VRef 5) (Some (VRef 9)) (VRef 6) Running False)
   \<and> stage_at 2 ''postProcessing'' (demo_state Running False [VInt 7] [])
     = Some (16, demo_stage ''WpdPostProcessor'' VNone (VRef 6) (Some (VRef 10)) (VRef 11) Running False)
   \<and> (\<exists>s'. Wpd_isRunning contract_stage_impl 2 (demo_state Running False [VInt 7] []) = Inr (True, s')
            \<and> heap s' = heap (demo_state Running False [VInt 7] []))
   \<and> stage_at 2 ''preProcessing'' (demo_state Stopped False [VInt 7] [])
     = Some (12, demo_stage ''WpdPreProcessor'' VNone (VRef 1) (Some (VRef 7)) (VRef 3) Stopped False)
   \<and> stage_at 2 ''window'' (demo_state Stopped False [VInt 7] [])
     = Some (13, demo_stage ''HannWindow'' (VInt 5) (VRef 3) None (VRef 4) Stopped False)
   \<and> stage_at 2 ''peakScorer'' (demo_state Stopped False [VInt 7] [])
     = Some (14, demo_stage ''MaxDiff'' VNone (VRef 4) (Some (VRef 8)) (VRef 5) Stopped False)
   \<and> stage_at 2 ''peakDetection'' (demo_state Stopped False [VInt 7] [])
     = Some (15, demo_stage ''PeakDetector'' (VInt 4) (VRef 5) (Some (VRef 9)) (VRef 6) Stopped False)
   \<and> stage_at 2 ''postProcessing'' (demo_state Stopped False [VInt 7] [])
     = Some (16, demo_stage ''WpdPostProcessor'' VNone (VRef 6) (Some (VRef 10)) (VRef 11) Stopped False)
   \<and> (\<exists>s'. Wpd_isRunning contract_stage_impl 2 (demo_state Stopped False [VInt 7] []) = Inr (False, s')
            \<and> heap s' = heap (demo_state Stopped False [VInt 7] []))"
  using Wpd_isRunning_disj[OF demo_stages[of Running False "[VInt 7]" "[]"], of contract_stage_impl]
    Wpd_isRunning_disj[OF demo_stages[of Stopped False "[VInt 7]" "[]"], of contract_stage_impl]
    demo_stages[of Running False "[VInt 7]" "[]"] demo_stages[of Stopped False "[VInt 7]" "[]"]
  by (simp add: contract_stage_impl_def demo_stage_def)

subsection \<open>The constructor\<close>

text \<open>
  C3. The \<^verbatim>\<open>Wpd\<close> constructor, given a source queue, the configuration of each stage
  and an observer, creates exactly four fresh queues and five plottable lists and wires
  the five stages into a chain: the supplied input queue feeds the pre-processor, whose
  output queue \<^verbatim>\<open>dataQueue\<close> feeds the window, whose output \<^verbatim>\<open>smoothedDataQueue\<close>
  feeds the peak scorer, whose output \<^verbatim>\<open>peakScores\<close> feeds the peak detector, whose
  output \<^verbatim>\<open>peaks\<close> feeds the post-processor, which writes to the \<^verbatim>\<open>confirmedPeaks\<close>
  list; each stage's input is the very object that is the previous stage's output. With
  both type tags in their registries the constructor returns; the store it leaves is the
  old store followed by the new objects: the pipeline at address \<open>self\<close>, the queues at
  \<open>self + 1\<close> to \<open>self + 4\<close>, the lists at \<open>self + 5\<close> to \<open>self + 9\<close>, the stages at
  \<open>self + 10\<close> to \<open>self + 14\<close>.
\<close>

theorem Wpd_new_wiring:
  assumes "map_of (SMOOTHING_WINDOWS C) windowType = Some wc"
      and "map_of (PEAKY_FUNCTIONS C) peakFuncType = Some fc"
  shows "\<exists>self s d l1 l2 l3 l4 l5 p1 p2 p3 p4 p5.
           Wpd_new C queue preProcessingParams windowType windowParams peakFuncType
             peakFuncParams peakDetectorParams postProcessingParams uiCallbackHandler s0
             = Inr (self, s)
         \<and> self = length (heap s0)
         \<and> heap s = heap s0 @
             [WpdObj d, Queue [], Queue [], Queue [], Queue [],
              PlottableList [] l1, PlottableList [] l2, PlottableList [] l3,
              PlottableList [] l4, PlottableList [] l5,
              Stage p1, Stage p2, Stage p3, Stage p4, Stage p5]
         \<and> attr_of self ''inputQueue'' s = Some queue
         \<and> attr_of self ''dataQueue'' s = Some (VRef (self + 1))
         \<and> attr_of self ''smoothedDataQueue'' s = Some (VRef (self + 2))
         \<and> attr_of self ''peakScores'' s = Some (VRef (self + 3))
         \<and> attr_of self ''peaks'' s = Some (VRef (self + 4))
         \<and> attr_of self ''confirmedPeaks'' s = Some (VRef (self + 9))
         \<and> stage_at self ''preProcessing'' s = Some (self + 10, p1)
         \<and> stage_at self ''window'' s = Some (self + 11, p2)
         \<and> stage_at self ''peakScorer'' s = Some (self + 12, p3)
         \<and> stage_at self ''peakDetection'' s = Some (self + 13, p4)
         \<and> stage_at self ''postProcessing'' s = Some (self + 14, p5)
         \<and> stage_in p1 = queue \<and> stage_out p1 = VRef (self + 1)
         \<and> stage_in p2 = VRef (self + 1) \<and> stage_out p2 = VRef (self + 2)
         \<and> stage_in p3 = VRef (self + 2) \<and> stage_out p3 = VRef (self + 3)
         \<and> stage_in p4 = VRef (self + 3) \<and> stage_out p4 = VRef (self + 4)
         \<and> stage_in p5 = VRef (self + 4) \<and> stage_out p5 = VRef (self + 9)"
proof -
  let ?r = "Wpd_new C queue preProcessingParams windowType windowParams peakFuncType
             peakFuncParams peakDetectorParams postProcessingParams uiCallbackHandler s0"
  define self where "self = fst (projr ?r)"
  define s where "s = snd (projr ?r)"
  have r: "?r = Inr (self, s)"
    by (simp add: self_def s_def Wpd_new_result[OF assms])
  from constructed_stages[OF r] obtain p1 p2 p3 p4 p5 where
    st: "stage_at self ''preProcessing'' s = Some (self + 10, p1)"
      "stage_at self ''window'' s = Some (self + 11, p2)"
      "stage_at self ''peakScorer'' s = Some (self + 12, p3)"
      "stage_at self ''peakDetection'' s = Some (self + 13, p4)"
      "stage_at self ''postProcessing'' s = Some (self + 14, p5)"
    and w: "stage_in p1 = queue" "stage_out p1 = VRef (self + 1)"
      "stage_in p2 = VRef (self + 1)" "stage_out p2 = VRef (self + 2)"
      "stage_in p3 = VRef (self + 2)" "stage_out p3 = VRef (self + 3)"
      "stage_in p4 = VRef (self + 3)" "stage_out p4 = VRef (self + 4)"
      "stage_in p5 = VRef (self + 4)" "stage_out p5 = VRef (self + 9)"
    by fastforce
  have e: "self = length (heap s0)" by (rule constructed_attrs(1)[OF r])
  have "\<exists>d l1 l2 l3 l4 l5 q1 q2 q3 q4 q5. heap s = heap s0 @
             [WpdObj d, Queue [], Queue [], Queue [], Queue [],
              PlottableList [] l1, PlottableList [] l2, PlottableList [] l3,
              PlottableList [] l4, PlottableList [] l5,
              Stage q1, Stage q2, Stage q3, Stage q4, Stage q5]"
    by (simp add: s_def Wpd_new_result[OF assms])
  then obtain d l1 l2 l3 l4 l5 q1 q2 q3 q4 q5 where h: "heap s = heap s0 @
             [WpdObj d, Queue [], Queue [], Queue [], Queue [],
              PlottableList [] l1, PlottableList [] l2, PlottableList [] l3,
              PlottableList [] l4, PlottableList [] l5,
              Stage q1, Stage q2, Stage q3, Stage q4, Stage q5]"
    by blast
  have o: "heap s ! (self + 10) = Stage p1" "heap s ! (self + 11) = Stage p2"
    "heap s ! (self + 12) = Stage p3" "heap s ! (self + 13) = Stage p4"
    "heap s ! (self + 14) = Stage p5"
    using stage_atD[OF st(1)] stage_atD[OF st(2)] stage_atD[OF st(3)] stage_atD[OF st(4)]
      stage_atD[OF st(5)] by auto
  have q: "q1 = p1" "q2 = p2" "q3 = p3" "q4 = p4" "q5 = p5"
    using o by (simp_all add: h e nth_append)
  from r e h[unfolded q] constructed_attrs(4,5,6,7,8,13)[OF r] st w
  show ?thesis
    by (intro exI conjI)
qed

theorem Wpd_new_wiring_witness:
  "map_of (SMOOTHING_WINDOWS demo_constants) (VStr ''hann'') = Some ''HannWindow''
   \<and> map_of (PEAKY_FUNCTIONS demo_constants) (VStr ''max_diff'') = Some ''MaxDiff''
   \<and> (\<exists>s d l1 l2 l3 l4 l5 p1 p2 p3 p4 p5.
         Wpd_new demo_constants (VRef 1) VNone (VStr ''hann'') (VInt 5) (VStr ''max_diff'')
           VNone (VInt 4) VNone (VRef 0) demo_world = Inr (2, s)
       \<and> heap s = heap demo_world @
           [WpdObj d, Queue [], Queue [], Queue [], Queue [],
            PlottableList [] l1, PlottableList [] l2, PlottableList [] l3,
            PlottableList [] l4, PlottableList [] l5,
            Stage p1, Stage p2, Stage p3, Stage p4, Stage p5]
       \<and> attr_of 2 ''inputQueue'' s = Some (VRef 1)
       \<and> attr_of 2 ''dataQueue'' s = Some (VRef 3)
       \<and> attr_of 2 ''smoothedDataQueue'' s = Some (VRef 4)
       \<and> attr_of 2 ''peakScores'' s = Some (VRef 5)
       \<and> attr_of 2 ''peaks'' s = Some (VRef 6)
       \<and> attr_of 2 ''confirmedPeaks'' s = Some (VRef 11)
       \<and> stage_at 2 ''preProcessing'' s = Some (12, p1)
       \<and> stage_at 2 ''window'' s = Some (13, p2)
       \<and> stage_at 2 ''peakScorer'' s = Some (14, p3)
       \<and> stage_at 2 ''peakDetection'' s = Some (15, p4)
       \<and> stage_at 2 ''postProcessing'' s = Some (16, p5)
       \<and> stage_in p1 = VRef 1 \<and> stage_out p1 = VRef 3
       \<and> stage_in p2 = VRef 3 \<and> stage_out p2 = VRef 4
       \<and> stage_in p3 = VRef 4 \<and> stage_out p3 = VRef 5
       \<and> stage_in p4 = VRef 5 \<and> stage_out p4 = VRef 6
       \<and> stage_in p5 = VRef 6 \<and> stage_out p5 = VRef 11)"
proof -
  have n: "length (heap demo_world) = 2"
    by (simp add: demo_world_def)
  from Wpd_new_wiring[OF demo_tags, of "VRef 1" VNone "VInt 5" VNone "VInt 4" VNone "VRef 0"
      demo_world] demo_tags
  show ?thesis
    unfolding n by simp
qed

text \<open>
  C4. The constructor subscribes the one observer it is given to exactly five distinct
  plottable lists, under the topics \<^verbatim>\<open>raw_data\<close>, \<^verbatim>\<open>smooth_data\<close>,
  \<^verbatim>\<open>peak_score_data\<close>, \<^verbatim>\<open>peak_data\<close> and \<^verbatim>\<open>confirmed_peak_data\<close>, one topic per
  list, and makes no other subscription: the calls it logs are these five, each of its
  five lists has the one subscriber, and the subscriptions found in the whole store are
  those that were there before followed by the five new ones.
\<close>

theorem Wpd_new_subscriptions:
  assumes "map_of (SMOOTHING_WINDOWS C) windowType = Some wc"
      and "map_of (PEAKY_FUNCTIONS C) peakFuncType = Some fc"
  shows "\<exists>self s l1 l2 l3 l4 l5.
           Wpd_new C queue preProcessingParams windowType windowParams peakFuncType
             peakFuncParams peakDetectorParams postProcessingParams uiCallbackHandler s0
             = Inr (self, s)
         \<and> calls s = calls s0 @
             [Call l1 ''subscribe'' [uiCallbackHandler, VStr ''raw_data''],
              Call l2 ''subscribe'' [uiCallbackHandler, VStr ''smooth_data''],
              Call l3 ''subscribe'' [uiCallbackHandler, VStr ''peak_score_data''],
              Call l4 ''subscribe'' [uiCallbackHandler, VStr ''peak_data''],
              Call l5 ''subscribe'' [uiCallbackHandler, VStr ''confirmed_peak_data'']]
         \<and> distinct [l1, l2, l3, l4, l5]
         \<and> attr_of self ''data'' s = Some (VRef l1)
         \<and> attr_of self ''smoothedData'' s = Some (VRef l2)
         \<and> attr_of self ''peakScoreData'' s = Some (VRef l3)
         \<and> attr_of self ''peakData'' s = Some (VRef l4)
         \<and> attr_of self ''confirmedPeaks'' s = Some (VRef l5)
         \<and> heap s ! l1 = PlottableList [] [(uiCallbackHandler, ''raw_data'')]
         \<and> heap s ! l2 = PlottableList [] [(uiCallbackHandler, ''smooth_data'')]
         \<and> heap s ! l3 = PlottableList [] [(uiCallbackHandler, ''peak_score_data'')]
         \<and> heap s ! l4 = PlottableList [] [(uiCallbackHandler, ''peak_data'')]
         \<and> heap s ! l5 = PlottableList [] [(uiCallbackHandler, ''confirmed_peak_data'')]
         \<and> concat (map subscribers (heap s)) = concat (map subscribers (heap s0)) @
             [(uiCallbackHandler, ''raw_data''), (uiCallbackHandler, ''smooth_data''),
              (uiCallbackHandler, ''peak_score_data''), (uiCallbackHandler, ''peak_data''),
              (uiCallbackHandler, ''confirmed_peak_data'')]"
proof -
  let ?r = "Wpd_new C queue preProcessingParams windowType windowParams peakFuncType
             peakFuncParams peakDetectorParams postProcessingParams uiCallbackHandler s0"
  define self where "self = fst (projr ?r)"
  define s where "s = snd (projr ?r)"
  have r: "?r = Inr (self, s)"
    by (simp add: self_def s_def Wpd_new_result[OF assms])
  have e: "self = length (heap s0)" by (rule constructed_attrs(1)[OF r])
  have c: "calls s = calls s0 @
             [Call (self + 5) ''subscribe'' [uiCallbackHandler, VStr ''raw_data''],
              Call (self + 6) ''subscribe'' [uiCallbackHandler, VStr ''smooth_data''],
              Call (self + 7) ''subscribe'' [uiCallbackHandler, VStr ''peak_score_data''],
              Call (self + 8) ''subscribe'' [uiCallbackHandler, VStr ''peak_data''],
              Call (self + 9) ''subscribe'' [uiCallbackHandler, VStr ''confirmed_peak_data'']]"
    by (simp add: e s_def Wpd_new_result[OF assms])
  have d: "distinct [self + 5, self + 6, self + 7, self + 8, self + 9]" by simp
  have a: "concat (map subscribers (heap s)) = concat (map subscribers (heap s0)) @
             [(uiCallbackHandler, ''raw_data''), (uiCallbackHandler, ''smooth_data''),
              (uiCallbackHandler, ''peak_score_data''), (uiCallbackHandler, ''peak_data''),
              (uiCallbackHandler, ''confirmed_peak_data'')]"
    by (simp add: s_def Wpd_new_result[OF assms])
  from r c d constructed_attrs(9,10,11,12,13)[OF r] constructed_objects(5,6,7,8,9)[OF r] a
  show ?thesis
    by (intro exI conjI)
qed

theorem Wpd_new_subscriptions_witness:
  "map_of (SMOOTHING_WINDOWS demo_constants) (VStr ''hann'') = Some ''HannWindow''
   \<and> map_of (PEAKY_FUNCTIONS demo_constants) (VStr ''max_diff'') = Some ''MaxDiff''
   \<and> (\<exists>self s l1 l2 l3 l4 l5.
         Wpd_new demo_constants (VRef 1) VNone (VStr ''hann'') (VInt 5) (VStr ''max_diff'')
           VNone (VInt 4) VNone (VRef 0) demo_world = Inr (self, s)
       \<and> calls s =
           [Call l1 ''subscribe'' [VRef 0, VStr ''raw_data''],
            Call l2 ''subscribe'' [VRef 0, VStr ''smooth_data''],
            Call l3 ''subscribe'' [VRef 0, VStr ''peak_score_data''],
            Call l4 ''subscribe'' [VRef 0, VStr ''peak_data''],
            Call l5 ''subscribe'' [VRef 0, VStr ''confirmed_peak_data'']]
       \<and> distinct [l1, l2, l3, l4, l5]
       \<and> attr_of self ''data'' s = Some (VRef l1)
       \<and> attr_of self ''smoothedData'' s = Some (VRef l2)
       \<and> attr_of self ''peakScoreData'' s = Some (VRef l3)
       \<and> attr_of self ''peakData'' s = Some (VRef l4)
       \<and> attr_of self ''confirmedPeaks'' s = Some (VRef l5)
       \<and> heap s ! l1 = PlottableList [] [(VRef 0, ''raw_data'')]
       \<and> heap s ! l2 = PlottableList [] [(VRef 0, ''smooth_data'')]
       \<and> heap s ! l3 = PlottableList [] [(VRef 0, ''peak_score_data'')]
       \<and> heap s ! l4 = PlottableList [] [(VRef 0, ''peak_data'')]
       \<and> heap s ! l5 = PlottableList [] [(VRef 0, ''confirmed_peak_data'')]
       \<and> concat (map subscribers (heap s)) =
           [(VRef 0, ''raw_data''), (VRef 0, ''smooth_data''), (VRef 0, ''peak_score_data''),
            (VRef 0, ''peak_data''), (VRef 0, ''confirmed_peak_data'')])"
proof -
  have n: "calls demo_world = []" "concat (map subscribers (heap demo_world)) = []"
    by (simp_all add: demo_world_def)
  from Wpd_new_subscriptions[OF demo_tags, of "VRef 1" VNone "VInt 5" VNone "VInt 4" VNone
      "VRef 0" demo_world] demo_tags
  show ?thesis
    unfolding n by simp
qed

subsection \<open>The getters\<close>

text \<open>
  C5. For every \<^verbatim>\<open>Wpd\<close> pipeline and every state of its queues,
  \<^verbatim>\<open>getProcessedDataSize()\<close> returns the size of \<^verbatim>\<open>dataQueue\<close>, the queue between the
  pre-processor and the window: the number of items the pre-processor has produced and
  the window has not yet consumed. The pipeline is one the constructor returned; the
  later store \<open>s'\<close> is any store in which the \<^verbatim>\<open>Wpd\<close> object is as constructed, and
  the queue that is the pre-processor's output and the window's input holds any items.
\<close>

theorem Wpd_getProcessedDataSize_dataQueue:
  assumes "Wpd_new C q pp wt wp ft fp dp po ui s0 = Inr (self, s)"
      and "self < length (heap s')" and "heap s' ! self = heap s ! self"
  shows "\<exists>dq a1 p1 a2 p2.
           stage_at self ''preProcessing'' s = Some (a1, p1) \<and> stage_out p1 = VRef dq
         \<and> stage_at self ''window'' s = Some (a2, p2) \<and> stage_in p2 = VRef dq
         \<and> heap s ! dq = Queue []
         \<and> (\<forall>xs. dq < length (heap s') \<and> heap s' ! dq = Queue xs \<longrightarrow>
               Wpd_getProcessedDataSize self s'
                 = Inr (length xs, s'\<lparr>calls := calls s' @ [Call dq ''size'' []]\<rparr>))"
proof -
  from constructed_stages[OF assms(1)] obtain p1 p2
    where st: "stage_at self ''preProcessing'' s = Some (self + 10, p1)" "stage_out p1 = VRef (self + 1)"
      "stage_at self ''window'' s = Some (self + 11, p2)" "stage_in p2 = VRef (self + 1)"
    by fastforce
  have len: "self < length (heap s)"
    using constructed_attrs(1,2)[OF assms(1)] by simp
  have "attr_of self ''dataQueue'' s' = Some (VRef (self + 1))"
    using attr_of_same[OF len assms(2,3)] constructed_attrs(5)[OF assms(1)] by simp
  then have g: "getattr self ''dataQueue'' s' = Inr (VRef (self + 1), s')"
    by (rule getattr_attr_of)
  have "\<forall>xs. self + 1 < length (heap s') \<and> heap s' ! (self + 1) = Queue xs \<longrightarrow>
               Wpd_getProcessedDataSize self s'
                 = Inr (length xs, s'\<lparr>calls := calls s' @ [Call (self + 1) ''size'' []]\<rparr>)"
    using g by (simp add: Wpd_getProcessedDataSize_def bnd_def call_size_Queue)
  with st constructed_objects(1)[OF assms(1)] show ?thesis by blast
qed

theorem Wpd_getProcessedDataSize_dataQueue_witness:
  "Wpd_new demo_constants (VRef 1) VNone (VStr ''hann'') (VInt 5) (VStr ''max_diff'')
       VNone (VInt 4) VNone (VRef 0) demo_world = Inr (2, demo_state Idle False [] [])
   \<and> 2 < length (heap (demo_state Running False [VInt 7, VInt 8] []))
   \<and> heap (demo_state Running False [VInt 7, VInt 8] []) ! 2 = heap (demo_state Idle False [] []) ! 2
   \<and> Wpd_getProcessedDataSize 2 (demo_state Running False [VInt 7, VInt 8] [])
       = Inr (2, (demo_state Running False [VInt 7, VInt 8] [])
                   \<lparr>calls := calls (demo_state Running False [VInt 7, VInt 8] []) @ [Call 3 ''size'' []]\<rparr>)"
proof -
  have c: "Wpd_new demo_constants (VRef 1) VNone (VStr ''hann'') (VInt 5) (VStr ''max_diff'')
       VNone (VInt 4) VNone (VRef 0) demo_world = Inr (2, demo_state Idle False [] [])"
    using demo_new_state by (simp add: demo_new_def)
  note later = demo_self[of Running False "[VInt 7, VInt 8]" "[]"]
  from Wpd_getProcessedDataSize_dataQueue[OF c later]
  obtain dq a1 p1 where st: "stage_at 2 ''preProcessing'' (demo_state Idle False [] []) = Some (a1, p1)"
      "stage_out p1 = VRef dq"
    and sz: "\<forall>xs. dq < length (heap (demo_state Running False [VInt 7, VInt 8] []))
                \<and> heap (demo_state Running False [VInt 7, VInt 8] []) ! dq = Queue xs \<longrightarrow>
              Wpd_getProcessedDataSize 2 (demo_state Running False [VInt 7, VInt 8] [])
                = Inr (length xs, (demo_state Running False [VInt 7, VInt 8] [])
                     \<lparr>calls := calls (demo_state Running False [VInt 7, VInt 8] []) @ [Call dq ''size'' []]\<rparr>)"
    by blast
  from st have "dq = 3"
    by (auto simp add: demo_stages demo_stage_def)
  with sz have "Wpd_getProcessedDataSize 2 (demo_state Running False [VInt 7, VInt 8] [])
       = Inr (2, (demo_state Running False [VInt 7, VInt 8] [])
                   \<lparr>calls := calls (demo_state Running False [VInt 7, VInt 8] []) @ [Call 3 ''size'' []]\<rparr>)"
    by (simp add: demo_state_def)
  with c later show ?thesis by simp
qed

text \<open>
  C6. For every \<^verbatim>\<open>Wpd\<close> pipeline and every state of its confirmed-peaks sequence,
  \<^verbatim>\<open>getSteps()\<close> returns the length of that sequence, and this is the length of the
  sequence \<^verbatim>\<open>getPeaks()\<close> returns, because \<^verbatim>\<open>getPeaks()\<close> returns the same
  \<^verbatim>\<open>confirmedPeaks\<close> object: the list subscribed under \<^verbatim>\<open>confirmed_peak_data\<close>, to
  which the post-processor writes, and neither the candidate-peak list \<^verbatim>\<open>peakData\<close> nor
  the candidate-peak queue \<^verbatim>\<open>peaks\<close>.
\<close>

theorem Wpd_getSteps_confirmedPeaks:
  assumes "Wpd_new C q pp wt wp ft fp dp po ui s0 = Inr (self, s)"
      and "self < length (heap s')" and "heap s' ! self = heap s ! self"
  shows "\<exists>cp pd pk a5 p5.
           Wpd_getPeaks self s' = Inr (VRef cp, s')
         \<and> heap s ! cp = PlottableList [] [(ui, ''confirmed_peak_data'')]
         \<and> stage_at self ''postProcessing'' s = Some (a5, p5) \<and> stage_out p5 = VRef cp
         \<and> attr_of self ''peakData'' s' = Some (VRef pd) \<and> pd \<noteq> cp
         \<and> attr_of self ''peaks'' s' = Some (VRef pk) \<and> pk \<noteq> cp
         \<and> (\<forall>vs subs. cp < length (heap s') \<and> heap s' ! cp = PlottableList vs subs \<longrightarrow>
               Wpd_getSteps self s'
                 = Inr (length vs, s'\<lparr>calls := calls s' @ [Call cp ''__len__'' []]\<rparr>)
             \<and> bnd (Wpd_getPeaks self) py_len s' = Wpd_getSteps self s')"
proof -
  from constructed_stages[OF assms(1)] obtain p5
    where st: "stage_at self ''postProcessing'' s = Some (self + 14, p5)" "stage_out p5 = VRef (self + 9)"
    by fastforce
  have len: "self < length (heap s)"
    using constructed_attrs(1,2)[OF assms(1)] by simp
  note same = attr_of_same[OF len assms(2,3)]
  have "attr_of self ''confirmedPeaks'' s' = Some (VRef (self + 9))"
    using same constructed_attrs(13)[OF assms(1)] by simp
  then have g: "getattr self ''confirmedPeaks'' s' = Inr (VRef (self + 9), s')"
    by (rule getattr_attr_of)
  have pd: "attr_of self ''peakData'' s' = Some (VRef (self + 8))"
    using same constructed_attrs(12)[OF assms(1)] by simp
  have pk: "attr_of self ''peaks'' s' = Some (VRef (self + 4))"
    using same constructed_attrs(8)[OF assms(1)] by simp
  have steps: "\<forall>vs subs. self + 9 < length (heap s') \<and> heap s' ! (self + 9) = PlottableList vs subs \<longrightarrow>
               Wpd_getSteps self s'
                 = Inr (length vs, s'\<lparr>calls := calls s' @ [Call (self + 9) ''__len__'' []]\<rparr>)
             \<and> bnd (Wpd_getPeaks self) py_len s' = Wpd_getSteps self s'"
    using g by (simp add: Wpd_getSteps_def Wpd_getPeaks_def bnd_def py_len_PlottableList)
  have peaks: "Wpd_getPeaks self s' = Inr (VRef (self + 9), s')"
    by (simp add: Wpd_getPeaks_def g)
  have ne: "self + 8 \<noteq> self + 9" "self + 4 \<noteq> self + 9" by simp_all
  from peaks constructed_objects(9)[OF assms(1)] st pd pk ne steps show ?thesis by blast
qed

theorem Wpd_getSteps_confirmedPeaks_witness:
  "Wpd_new demo_constants (VRef 1) VNone (VStr ''hann'') (VInt 5) (VStr ''max_diff'')
       VNone (VInt 4) VNone (VRef 0) demo_world = Inr (2, demo_state Idle False [] [])
   \<and> 2 < length (heap (demo_state Running False [] [VInt 5]))
   \<and> heap (demo_state Running False [] [VInt 5]) ! 2 = heap (demo_state Idle False [] []) ! 2
   \<and> Wpd_getPeaks 2 (demo_state Running False [] [VInt 5]) = Inr (VRef 11, demo_state Running False [] [VInt 5])
   \<and> Wpd_getSteps 2 (demo_state Running False [] [VInt 5])
       = Inr (1, (demo_state Running False [] [VInt 5])
                   \<lparr>calls := calls (demo_state Running False [] [VInt 5]) @ [Call 11 ''__len__'' []]\<rparr>)
   \<and> bnd (Wpd_getPeaks 2) py_len (demo_state Running False [] [VInt 5]) = Wpd_getSteps 2 (demo_state Running False [] [VInt 5])"
proof -
  have c: "Wpd_new demo_constants (VRef 1) VNone (VStr ''hann'') (VInt 5) (VStr ''max_diff'')
       VNone (VInt 4) VNone (VRef 0) demo_world = Inr (2, demo_state Idle False [] [])"
    using demo_new_state by (simp add: demo_new_def)
  note later = demo_self[of Running False "[]" "[VInt 5]"]
  from Wpd_getSteps_confirmedPeaks[OF c later]
  obtain cp where pk: "Wpd_getPeaks 2 (demo_state Running False [] [VInt 5]) = Inr (VRef cp, demo_state Running False [] [VInt 5])"
    and st: "\<forall>vs subs. cp < length (heap (demo_state Running False [] [VInt 5]))
                \<and> heap (demo_state Running False [] [VInt 5]) ! cp = PlottableList vs subs \<longrightarrow>
              Wpd_getSteps 2 (demo_state Running False [] [VInt 5])
                = Inr (length vs, (demo_state Running False [] [VInt 5])
                     \<lparr>calls := calls (demo_state Running False [] [VInt 5]) @ [Call cp ''__len__'' []]\<rparr>)
              \<and> bnd (Wpd_getPeaks 2) py_len (demo_state Running False [] [VInt 5]) = Wpd_getSteps 2 (demo_state Running False [] [VInt 5])"
    by blast
  have "Wpd_getPeaks 2 (demo_state Running False [] [VInt 5]) = Inr (VRef 11, demo_state Running False [] [VInt 5])"
    by (simp add: Wpd_getPeaks_def demo_state_def comp_defs)
  with pk have "cp = 11" by simp
  with pk st have "Wpd_getPeaks 2 (demo_state Running False [] [VInt 5]) = Inr (VRef 11, demo_state Running False [] [VInt 5])"
    and "Wpd_getSteps 2 (demo_state Running False [] [VInt 5])
       = Inr (1, (demo_state Running False [] [VInt 5])
                   \<lparr>calls := calls (demo_state Running False [] [VInt 5]) @ [Call 11 ''__len__'' []]\<rparr>)
     \<and> bnd (Wpd_getPeaks 2) py_len (demo_state Running False [] [VInt 5]) = Wpd_getSteps 2 (demo_state Running False [] [VInt 5])"
    by (simp_all add: demo_state_def)
  with c later show ?thesis by simp
qed

text \<open>
  C7. For every \<^verbatim>\<open>Wpd\<close> instance as the constructor leaves it, \<^verbatim>\<open>getPeakyData()\<close>
  fails with an attribute-lookup error instead of returning a value: it reads the
  attribute \<^verbatim>\<open>peakyData\<close>, which the constructor never assigns. In particular it does
  not return the \<^verbatim>\<open>peakScoreData\<close> sequence, which the object does hold.
\<close>

theorem Wpd_getPeakyData_raises:
  assumes "Wpd_new C q pp wt wp ft fp dp po ui s0 = Inr (self, s)"
      and "self < length (heap s')" and "heap s' ! self = heap s ! self"
  shows "Wpd_getPeakyData self s' = Inl (AttributeError ''peakyData'')
         \<and> (\<exists>psd. attr_of self ''peakScoreData'' s' = Some (VRef psd)
                \<and> heap s ! psd = PlottableList [] [(ui, ''peak_score_data'')]
                \<and> Wpd_getPeakyData self s' \<noteq> Inr (VRef psd, s'))"
proof -
  have len: "self < length (heap s)"
    using constructed_attrs(1,2)[OF assms(1)] by simp
  note same = attr_of_same[OF len assms(2,3)]
  have "attr_of self ''peakyData'' s' = None"
    using same constructed_attrs(14)[OF assms(1)] by simp
  then have r: "Wpd_getPeakyData self s' = Inl (AttributeError ''peakyData'')"
    unfolding Wpd_getPeakyData_def by (rule getattr_None)
  have "attr_of self ''peakScoreData'' s' = Some (VRef (self + 7))"
    using same constructed_attrs(11)[OF assms(1)] by simp
  with r constructed_objects(7)[OF assms(1)] show ?thesis by simp
qed

theorem Wpd_getPeakyData_raises_witness:
  "Wpd_new demo_constants (VRef 1) VNone (VStr ''hann'') (VInt 5) (VStr ''max_diff'')
       VNone (VInt 4) VNone (VRef 0) demo_world = Inr (2, demo_state Idle False [] [])
   \<and> 2 < length (heap (demo_state Running False [] [VInt 5]))
   \<and> heap (demo_state Running False [] [VInt 5]) ! 2 = heap (demo_state Idle False [] []) ! 2
   \<and> Wpd_getPeakyData 2 (demo_state Running False [] [VInt 5]) = Inl (AttributeError ''peakyData'')
   \<and> Wpd_getPeakyData 2 (demo_state Idle False [] []) = Inl (AttributeError ''peakyData'')"
proof -
  have c: "Wpd_new demo_constants (VRef 1) VNone (VStr ''hann'') (VInt 5) (VStr ''max_diff'')
       VNone (VInt 4) VNone (VRef 0) demo_world = Inr (2, demo_state Idle False [] [])"
    using demo_new_state by (simp add: demo_new_def)
  note later = demo_self[of Running False "[]" "[VInt 5]"]
  note now = demo_self[of Idle False "[]" "[]"]
  from Wpd_getPeakyData_raises[OF c later] Wpd_getPeakyData_raises[OF c now] c later
  show ?thesis by simp
qed

subsection \<open>Starting and stopping\<close>

text \<open>
  C8. \<^verbatim>\<open>Wpd.start()\<close> invokes \<^verbatim>\<open>start()\<close> exactly once on each of the five stages,
  in pipeline order: pre-processor, window, peak scorer, peak detector, post-processor.
  It has no guard against being called twice: a second call invokes \<^verbatim>\<open>start()\<close> on
  each stage again, in the same order. The pipeline is any \<^verbatim>\<open>Wpd\<close> object whose five
  stage attributes refer to five different stage objects.
\<close>

theorem Wpd_start_order:
  assumes "stage_at self ''preProcessing'' s = Some (a1, p1)"
      and "stage_at self ''window'' s = Some (a2, p2)"
      and "stage_at self ''peakScorer'' s = Some (a3, p3)"
      and "stage_at self ''peakDetection'' s = Some (a4, p4)"
      and "stage_at self ''postProcessing'' s = Some (a5, p5)"
      and "distinct [a1, a2, a3, a4, a5]"
  shows "\<exists>s1 s2.
           Wpd_start I self s = Inr ((), s1)
         \<and> calls s1 = calls s @ [Call a1 ''start'' [], Call a2 ''start'' [], Call a3 ''start'' [],
                                   Call a4 ''start'' [], Call a5 ''start'' []]
         \<and> heap s1 = (heap s)[a1 := Stage (start_impl I p1), a2 := Stage (start_impl I p2),
                                a3 := Stage (start_impl I p3), a4 := Stage (start_impl I p4),
                                a5 := Stage (start_impl I p5)]
         \<and> Wpd_start I self s1 = Inr ((), s2)
         \<and> calls s2 = calls s1 @ [Call a1 ''start'' [], Call a2 ''start'' [], Call a3 ''start'' [],
                                    Call a4 ''start'' [], Call a5 ''start'' []]
         \<and> heap s2 = (heap s1)[a1 := Stage (start_impl I (start_impl I p1)),
                                 a2 := Stage (start_impl I (start_impl I p2)),
                                 a3 := Stage (start_impl I (start_impl I p3)),
                                 a4 := Stage (start_impl I (start_impl I p4)),
                                 a5 := Stage (start_impl I (start_impl I p5))]"
proof -
  define s1 where "s1 = snd (projr (Wpd_start I self s))"
  have r1: "Wpd_start I self s = Inr ((), s1)"
    by (simp add: s1_def Wpd_start_result[OF assms])
  have c1: "calls s1 = calls s @ [Call a1 ''start'' [], Call a2 ''start'' [], Call a3 ''start'' [],
                                   Call a4 ''start'' [], Call a5 ''start'' []]"
    by (simp add: s1_def Wpd_start_result[OF assms])
  have h1: "heap s1 = (heap s)[a1 := Stage (start_impl I p1), a2 := Stage (start_impl I p2),
                                a3 := Stage (start_impl I p3), a4 := Stage (start_impl I p4),
                                a5 := Stage (start_impl I p5)]"
    by (simp add: s1_def Wpd_start_result[OF assms])
  note st1 = stage_at_replaced[OF assms h1]
  define s2 where "s2 = snd (projr (Wpd_start I self s1))"
  have r2: "Wpd_start I self s1 = Inr ((), s2)"
    by (simp add: s2_def Wpd_start_result[OF st1 assms(6)])
  have c2: "calls s2 = calls s1 @ [Call a1 ''start'' [], Call a2 ''start'' [], Call a3 ''start'' [],
                                    Call a4 ''start'' [], Call a5 ''start'' []]"
    by (simp add: s2_def Wpd_start_result[OF st1 assms(6)])
  have h2: "heap s2 = (heap s1)[a1 := Stage (start_impl I (start_impl I p1)),
                                 a2 := Stage (start_impl I (start_impl I p2)),
                                 a3 := Stage (start_impl I (start_impl I p3)),
                                 a4 := Stage (start_impl I (start_impl I p4)),
                                 a5 := Stage (start_impl I (start_impl I p5))]"
    by (simp add: s2_def Wpd_start_result[OF st1 assms(6)])
  from r1 c1 h1 r2 c2 h2 show ?thesis
    by (intro exI conjI)
qed

theorem Wpd_start_order_witness:
  "stage_at 2 ''preProcessing'' (demo_state Idle False [] [])
     = Some (12, demo_stage ''WpdPreProcessor'' VNone (VRef 1) (Some (VRef 7)) (VRef 3) Idle False)
   \<and> stage_at 2 ''window'' (demo_state Idle False [] [])
     = Some (13, demo_stage ''HannWindow'' (VInt 5) (VRef 3) None (VRef 4) Idle False)
   \<and> stage_at 2 ''peakScorer'' (demo_state Idle False [] [])
     = Some (14, demo_stage ''MaxDiff'' VNone (VRef 4) (Some (VRef 8)) (VRef 5) Idle False)
   \<and> stage_at 2 ''peakDetection'' (demo_state Idle False [] [])
     = Some (15, demo_stage ''PeakDetector'' (VInt 4) (VRef 5) (Some (VRef 9)) (VRef 6) Idle False)
   \<and> stage_at 2 ''postProcessing'' (demo_state Idle False [] [])
     = Some (16, demo_stage ''WpdPostProcessor'' VNone (VRef 6) (Some (VRef 10)) (VRef 11) Idle False)
   \<and> distinct [12, 13, 14, 15, 16 :: nat]
   \<and> (\<exists>s1 s2.
         Wpd_start contract_stage_impl 2 (demo_state Idle False [] []) = Inr ((), s1)
       \<and> calls s1 = calls (demo_state Idle False [] []) @ [Call 12 ''start'' [], Call 13 ''start'' [], Call 14 ''start'' [], Call 15 ''start'' [], Call 16 ''start'' []]
       \<and> heap s1 = heap (demo_state Running False [] [])
       \<and> Wpd_start contract_stage_impl 2 s1 = Inr ((), s2)
       \<and> calls s2 = calls s1 @ [Call 12 ''start'' [], Call 13 ''start'' [], Call 14 ''start'' [], Call 15 ''start'' [], Call 16 ''start'' []]
       \<and> heap s2 = heap (demo_state Running False [] []))"
proof -
  note st = demo_stages[of Idle False "[]" "[]"]
  from Wpd_start_order[OF st demo_distinct, of contract_stage_impl]
  obtain s1 s2 where r: "Wpd_start contract_stage_impl 2 (demo_state Idle False [] []) = Inr ((), s1)"
      "calls s1 = calls (demo_state Idle False [] []) @ [Call 12 ''start'' [], Call 13 ''start'' [], Call 14 ''start'' [], Call 15 ''start'' [], Call 16 ''start'' []]"
      "Wpd_start contract_stage_impl 2 s1 = Inr ((), s2)"
      "calls s2 = calls s1 @ [Call 12 ''start'' [], Call 13 ''start'' [], Call 14 ''start'' [], Call 15 ''start'' [], Call 16 ''start'' []]"
    and h1: "heap s1 = (heap (demo_state Idle False [] []))
       [12 := Stage (start_impl contract_stage_impl
                 (demo_stage ''WpdPreProcessor'' VNone (VRef 1) (Some (VRef 7)) (VRef 3) Idle False)),
        13 := Stage (start_impl contract_stage_impl
                 (demo_stage ''HannWindow'' (VInt 5) (VRef 3) None (VRef 4) Idle False)),
        14 := Stage (start_impl contract_stage_impl
                 (demo_stage ''MaxDiff'' VNone (VRef 4) (Some (VRef 8)) (VRef 5) Idle False)),
        15 := Stage (start_impl contract_stage_impl
                 (demo_stage ''PeakDetector'' (VInt 4) (VRef 5) (Some (VRef 9)) (VRef 6) Idle False)),
        16 := Stage (start_impl contract_stage_impl
                 (demo_stage ''WpdPostProcessor'' VNone (VRef 6) (Some (VRef 10)) (VRef 11) Idle False))]"
    and h2: "heap s2 = (heap s1)
       [12 := Stage (start_impl contract_stage_impl (start_impl contract_stage_impl
                 (demo_stage ''WpdPreProcessor'' VNone (VRef 1) (Some (VRef 7)) (VRef 3) Idle False))),
        13 := Stage (start_impl contract_stage_impl (start_impl contract_stage_impl
                 (demo_stage ''HannWindow'' (VInt 5) (VRef 3) None (VRef 4) Idle False))),
        14 := Stage (start_impl contract_stage_impl (start_impl contract_stage_impl
                 (demo_stage ''MaxDiff'' VNone (VRef 4) (Some (VRef 8)) (VRef 5) Idle False))),
        15 := Stage (start_impl contract_stage_impl (start_impl contract_stage_impl
                 (demo_stage ''PeakDetector'' (VInt 4) (VRef 5) (Some (VRef 9)) (VRef 6) Idle False))),
        16 := Stage (start_impl contract_stage_impl (start_impl contract_stage_impl
                 (demo_stage ''WpdPostProcessor'' VNone (VRef 6) (Some (VRef 10)) (VRef 11) Idle False)))]"
    by blast
  have e1: "heap s1 = heap (demo_state Running False [] [])"
    unfolding h1 by (simp add: demo_state_def demo_stage_def contract_stage_impl_def)
  have e2: "heap s2 = heap (demo_state Running False [] [])"
    unfolding h2 e1 by (simp add: demo_state_def demo_stage_def contract_stage_impl_def)
  from st demo_distinct r e1 e2 show ?thesis by blast
qed

text \<open>
  C9. \<^verbatim>\<open>Wpd.stop()\<close> invokes \<^verbatim>\<open>stop()\<close> exactly once on each of the five stages and
  then returns: it does not wait for completion, does not poll \<^verbatim>\<open>isDone()\<close> or
  \<^verbatim>\<open>isRunning()\<close>, and does nothing else. The calls it logs are the five \<^verbatim>\<open>stop\<close>
  calls and no other; the store changes in the five stage objects only, each by one
  application of the stage's \<^verbatim>\<open>stop\<close>; and it has returned whatever state the stages
  are left in, so that \<^verbatim>\<open>isDone()\<close> asked right afterwards answers for the stages as
  their \<^verbatim>\<open>stop\<close> left them.
\<close>

theorem Wpd_stop_calls:
  assumes "stage_at self ''preProcessing'' s = Some (a1, p1)"
      and "stage_at self ''window'' s = Some (a2, p2)"
      and "stage_at self ''peakScorer'' s = Some (a3, p3)"
      and "stage_at self ''peakDetection'' s = Some (a4, p4)"
      and "stage_at self ''postProcessing'' s = Some (a5, p5)"
      and "distinct [a1, a2, a3, a4, a5]"
  shows "\<exists>s1 s2.
           Wpd_stop I self s = Inr ((), s1)
         \<and> calls s1 = calls s @ [Call a1 ''stop'' [], Call a2 ''stop'' [], Call a3 ''stop'' [],
                                   Call a4 ''stop'' [], Call a5 ''stop'' []]
         \<and> heap s1 = (heap s)[a1 := Stage (stop_impl I p1), a2 := Stage (stop_impl I p2),
                                a3 := Stage (stop_impl I p3), a4 := Stage (stop_impl I p4),
                                a5 := Stage (stop_impl I p5)]
         \<and> Wpd_isDone I self s1
             = Inr (isDone_impl I (stop_impl I p1) \<and> isDone_impl I (stop_impl I p2)
                      \<and> isDone_impl I (stop_impl I p3) \<and> isDone_impl I (stop_impl I p4)
                      \<and> isDone_impl I (stop_impl I p5), s2)"
proof -
  define s1 where "s1 = snd (projr (Wpd_stop I self s))"
  have r1: "Wpd_stop I self s = Inr ((), s1)"
    by (simp add: s1_def Wpd_stop_result[OF assms])
  have c1: "calls s1 = calls s @ [Call a1 ''stop'' [], Call a2 ''stop'' [], Call a3 ''stop'' [],
                                   Call a4 ''stop'' [], Call a5 ''stop'' []]"
    by (simp add: s1_def Wpd_stop_result[OF assms])
  have h1: "heap s1 = (heap s)[a1 := Stage (stop_impl I p1), a2 := Stage (stop_impl I p2),
                                a3 := Stage (stop_impl I p3), a4 := Stage (stop_impl I p4),
                                a5 := Stage (stop_impl I p5)]"
    by (simp add: s1_def Wpd_stop_result[OF assms])
  from Wpd_isDone_result[OF stage_at_replaced[OF assms h1], of I]
  obtain t where "Wpd_isDone I self s1
             = Inr (isDone_impl I (stop_impl I p1) \<and> isDone_impl I (stop_impl I p2)
                      \<and> isDone_impl I (stop_impl I p3) \<and> isDone_impl I (stop_impl I p4)
                      \<and> isDone_impl I (stop_impl I p5), s1\<lparr>calls := calls s1 @ t\<rparr>)"
    by blast
  with r1 c1 h1 show ?thesis
    by (intro exI conjI)
qed

theorem Wpd_stop_calls_witness:
  "stage_at 2 ''preProcessing'' (demo_state Running False [VInt 7] [])
     = Some (12, demo_stage ''WpdPreProcessor'' VNone (VRef 1) (Some (VRef 7)) (VRef 3) Running False)
   \<and> stage_at 2 ''window'' (demo_state Running False [VInt 7] [])
     = Some (13, demo_stage ''HannWindow'' (VInt 5) (VRef 3) None (VRef 4) Running False)
   \<and> stage_at 2 ''peakScorer'' (demo_state Running False [VInt 7] [])
     = Some (14, demo_stage ''MaxDiff'' VNone (VRef 4) (Some (VRef 8)) (VRef 5) Running False)
   \<and> stage_at 2 ''peakDetection'' (demo_state Running False [VInt 7] [])
     = Some (15, demo_stage ''PeakDetector'' (VInt 4) (VRef 5) (Some (VRef 9)) (VRef 6) Running False)
   \<and> stage_at 2 ''postProcessing'' (demo_state Running False [VInt 7] [])
     = Some (16, demo_stage ''WpdPostProcessor'' VNone (VRef 6) (Some (VRef 10)) (VRef 11) Running False)
   \<and> distinct [12, 13, 14, 15, 16 :: nat]
   \<and> (\<exists>s1 s2.
         Wpd_stop contract_stage_impl 2 (demo_state Running False [VInt 7] []) = Inr ((), s1)
       \<and> calls s1 = calls (demo_state Running False [VInt 7] []) @ [Call 12 ''stop'' [], Call 13 ''stop'' [], Call 14 ''stop'' [], Call 15 ''stop'' [], Call 16 ''stop'' []]
       \<and> heap s1 = heap (demo_state Stopping False [VInt 7] [])
       \<and> Wpd_isDone contract_stage_impl 2 s1 = Inr (False, s2))"
proof -
  note st = demo_stages[of Running False "[VInt 7]" "[]"]
  from Wpd_stop_calls[OF st demo_distinct, of contract_stage_impl]
  obtain s1 s2 where r: "Wpd_stop contract_stage_impl 2 (demo_state Running False [VInt 7] []) = Inr ((), s1)"
      "calls s1 = calls (demo_state Running False [VInt 7] []) @ [Call 12 ''stop'' [], Call 13 ''stop'' [], Call 14 ''stop'' [], Call 15 ''stop'' [], Call 16 ''stop'' []]"
    and h1: "heap s1 = (heap (demo_state Running False [VInt 7] []))
       [12 := Stage (stop_impl contract_stage_impl
                 (demo_stage ''WpdPreProcessor'' VNone (VRef 1) (Some (VRef 7)) (VRef 3) Running False)),
        13 := Stage (stop_impl contract_stage_impl
                 (demo_stage ''HannWindow'' (VInt 5) (VRef 3) None (VRef 4) Running False)),
        14 := Stage (stop_impl contract_stage_impl
                 (demo_stage ''MaxDiff'' VNone (VRef 4) (Some (VRef 8)) (VRef 5) Running False)),
        15 := Stage (stop_impl contract_stage_impl
                 (demo_stage ''PeakDetector'' (VInt 4) (VRef 5) (Some (VRef 9)) (VRef 6) Running False)),
        16 := Stage (stop_impl contract_stage_impl
                 (demo_stage ''WpdPostProcessor'' VNone (VRef 6) (Some (VRef 10)) (VRef 11) Running False))]"
    and d: "Wpd_isDone contract_stage_impl 2 s1
       = Inr (isDone_impl contract_stage_impl (stop_impl contract_stage_impl
                 (demo_stage ''WpdPreProcessor'' VNone (VRef 1) (Some (VRef 7)) (VRef 3) Running False))
            \<and> isDone_impl contract_stage_impl (stop_impl contract_stage_impl
                 (demo_stage ''HannWindow'' (VInt 5) (VRef 3) None (VRef 4) Running False))
            \<and> isDone_impl contract_stage_impl (stop_impl contract_stage_impl
                 (demo_stage ''MaxDiff'' VNone (VRef 4) (Some (VRef 8)) (VRef 5) Running False))
            \<and> isDone_impl contract_stage_impl (stop_impl contract_stage_impl
                 (demo_stage ''PeakDetector'' (VInt 4) (VRef 5) (Some (VRef 9)) (VRef 6) Running False))
            \<and> isDone_impl contract_stage_impl (stop_impl contract_stage_impl
                 (demo_stage ''WpdPostProcessor'' VNone (VRef 6) (Some (VRef 10)) (VRef 11) Running False)),
            s2)"
    by blast
  have e1: "heap s1 = heap (demo_state Stopping False [VInt 7] [])"
    unfolding h1 by (simp add: demo_state_def demo_stage_def contract_stage_impl_def)
  from d have e2: "Wpd_isDone contract_stage_impl 2 s1 = Inr (False, s2)"
    by (simp add: demo_stage_def contract_stage_impl_def)
  from st demo_distinct r e1 e2 show ?thesis by blast
qed

subsection \<open>The frame of the lifecycle methods\<close>

text \<open>
  C10. The lifecycle methods \<^verbatim>\<open>start()\<close>, \<^verbatim>\<open>stop()\<close>, \<^verbatim>\<open>isDone()\<close> and
  \<^verbatim>\<open>isRunning()\<close> only delegate to the five stage objects and modify no field of the
  \<^verbatim>\<open>Wpd\<close> object: after any sequence of these calls on a constructed pipeline, with any
  implementation of the stages, the calls have all returned, the \<^verbatim>\<open>Wpd\<close> object is
  unchanged, and \<^verbatim>\<open>getRawData()\<close>, \<^verbatim>\<open>getSmoothedData()\<close> and \<^verbatim>\<open>getPeaks()\<close> return,
  and \<^verbatim>\<open>getProcessedDataSize()\<close> measures, the identical objects as right after
  construction: objects the constructor created, themselves unchanged by the calls.
\<close>

theorem lifecycle_calls_frame:
  assumes "Wpd_new C q pp wt wp ft fp dp po ui s0 = Inr (self, s)"
  shows "\<exists>s' d sd cp dq k.
           run_calls I self cs s = Inr ((), s')
         \<and> self < length (heap s') \<and> heap s' ! self = heap s ! self
         \<and> Wpd_getRawData self s = Inr (VRef d, s)
         \<and> Wpd_getRawData self s' = Inr (VRef d, s')
         \<and> Wpd_getSmoothedData self s = Inr (VRef sd, s)
         \<and> Wpd_getSmoothedData self s' = Inr (VRef sd, s')
         \<and> Wpd_getPeaks self s = Inr (VRef cp, s)
         \<and> Wpd_getPeaks self s' = Inr (VRef cp, s')
         \<and> Wpd_getProcessedDataSize self s
              = Inr (k, s\<lparr>calls := calls s @ [Call dq ''size'' []]\<rparr>)
         \<and> Wpd_getProcessedDataSize self s'
              = Inr (k, s'\<lparr>calls := calls s' @ [Call dq ''size'' []]\<rparr>)
         \<and> length (heap s0) \<le> d \<and> length (heap s0) \<le> sd
         \<and> length (heap s0) \<le> cp \<and> length (heap s0) \<le> dq
         \<and> heap s' ! d = heap s ! d \<and> heap s' ! sd = heap s ! sd
         \<and> heap s' ! cp = heap s ! cp \<and> heap s' ! dq = heap s ! dq"
proof -
  from constructed_stages[OF assms] obtain p1 p2 p3 p4 p5 where
    st: "stage_at self ''preProcessing'' s = Some (self + 10, p1)"
      "stage_at self ''window'' s = Some (self + 11, p2)"
      "stage_at self ''peakScorer'' s = Some (self + 12, p3)"
      "stage_at self ''peakDetection'' s = Some (self + 13, p4)"
      "stage_at self ''postProcessing'' s = Some (self + 14, p5)"
    by blast
  have di: "distinct [self + 10, self + 11, self + 12, self + 13, self + 14]" by simp
  from run_calls_frame[OF st di, of I cs] obtain s' where
    run: "run_calls I self cs s = Inr ((), s')"
    and len': "length (heap s') = length (heap s)"
    and same: "\<forall>a. a \<notin> {self + 10, self + 11, self + 12, self + 13, self + 14}
                  \<longrightarrow> heap s' ! a = heap s ! a"
    by blast
  have e: "self = length (heap s0)" by (rule constructed_attrs(1)[OF assms])
  have len: "self < length (heap s)"
    using constructed_attrs(1,2)[OF assms] by simp
  have len2: "self < length (heap s')" using len len' by simp
  have obj: "heap s' ! self = heap s ! self"
    and o1: "heap s' ! (self + 5) = heap s ! (self + 5)"
    and o2: "heap s' ! (self + 6) = heap s ! (self + 6)"
    and o3: "heap s' ! (self + 9) = heap s ! (self + 9)"
    and o4: "heap s' ! (self + 1) = heap s ! (self + 1)"
    using same by simp_all
  note at = attr_of_same[OF len len2 obj]
  have g: "Wpd_getRawData self s = Inr (VRef (self + 5), s)"
    "Wpd_getSmoothedData self s = Inr (VRef (self + 6), s)"
    "Wpd_getPeaks self s = Inr (VRef (self + 9), s)"
    unfolding Wpd_getRawData_def Wpd_getSmoothedData_def Wpd_getPeaks_def
    by (rule getattr_attr_of, rule constructed_attrs[OF assms])+
  have g': "Wpd_getRawData self s' = Inr (VRef (self + 5), s')"
    "Wpd_getSmoothedData self s' = Inr (VRef (self + 6), s')"
    "Wpd_getPeaks self s' = Inr (VRef (self + 9), s')"
    unfolding Wpd_getRawData_def Wpd_getSmoothedData_def Wpd_getPeaks_def
    by (rule getattr_attr_of, simp only: at constructed_attrs(9,10,13)[OF assms])+
  have dq: "getattr self ''dataQueue'' s = Inr (VRef (self + 1), s)"
    by (rule getattr_attr_of, rule constructed_attrs[OF assms])
  have dq': "getattr self ''dataQueue'' s' = Inr (VRef (self + 1), s')"
    by (rule getattr_attr_of, simp only: at constructed_attrs(5)[OF assms])
  have q: "heap s ! (self + 1) = Queue []" by (rule constructed_objects(1)[OF assms])
  have l1: "self + 1 < length (heap s)" using constructed_attrs(1,2)[OF assms] by simp
  have sz: "Wpd_getProcessedDataSize self s
              = Inr (0, s\<lparr>calls := calls s @ [Call (self + 1) ''size'' []]\<rparr>)"
    using dq q l1 by (simp add: Wpd_getProcessedDataSize_def bnd_def call_size_Queue)
  have sz': "Wpd_getProcessedDataSize self s'
              = Inr (0, s'\<lparr>calls := calls s' @ [Call (self + 1) ''size'' []]\<rparr>)"
    using dq' q l1 o4 len' by (simp add: Wpd_getProcessedDataSize_def bnd_def call_size_Queue)
  have fresh: "length (heap s0) \<le> self + 5" "length (heap s0) \<le> self + 6"
    "length (heap s0) \<le> self + 9" "length (heap s0) \<le> self + 1"
    using e by simp_all
  from run len2 obj g(1) g'(1) g(2) g'(2) g(3) g'(3) sz sz' fresh o1 o2 o3 o4
  show ?thesis
    by (intro exI conjI)
qed

theorem lifecycle_calls_frame_witness:
  "Wpd_new demo_constants (VRef 1) VNone (VStr ''hann'') (VInt 5) (VStr ''max_diff'')
       VNone (VInt 4) VNone (VRef 0) demo_world = Inr (2, demo_state Idle False [] [])
   \<and> (\<exists>s'. run_calls contract_stage_impl 2 [CallStart, CallIsRunning, CallStop, CallIsDone, CallStart]
               (demo_state Idle False [] []) = Inr ((), s')
          \<and> 2 < length (heap s') \<and> heap s' ! 2 = heap (demo_state Idle False [] []) ! 2
          \<and> Wpd_getRawData 2 s' = Inr (VRef 7, s')
          \<and> Wpd_getSmoothedData 2 s' = Inr (VRef 8, s')
          \<and> Wpd_getPeaks 2 s' = Inr (VRef 11, s')
          \<and> Wpd_getProcessedDataSize 2 s' = Inr (0, s'\<lparr>calls := calls s' @ [Call 3 ''size'' []]\<rparr>))"
proof -
  have c: "Wpd_new demo_constants (VRef 1) VNone (VStr ''hann'') (VInt 5) (VStr ''max_diff'')
       VNone (VInt 4) VNone (VRef 0) demo_world = Inr (2, demo_state Idle False [] [])"
    using demo_new_state by (simp add: demo_new_def)
  have g: "Wpd_getRawData 2 (demo_state Idle False [] []) = Inr (VRef 7, demo_state Idle False [] [])"
    "Wpd_getSmoothedData 2 (demo_state Idle False [] []) = Inr (VRef 8, demo_state Idle False [] [])"
    "Wpd_getPeaks 2 (demo_state Idle False [] []) = Inr (VRef 11, demo_state Idle False [] [])"
    "Wpd_getProcessedDataSize 2 (demo_state Idle False [] [])
       = Inr (0, (demo_state Idle False [] [])\<lparr>calls := calls (demo_state Idle False [] []) @ [Call 3 ''size'' []]\<rparr>)"
    by (simp_all add: Wpd_getRawData_def Wpd_getSmoothedData_def Wpd_getPeaks_def
          Wpd_getProcessedDataSize_def demo_state_def comp_defs)
  from lifecycle_calls_frame[OF c, of contract_stage_impl "[CallStart, CallIsRunning, CallStop, CallIsDone, CallStart]"]
  obtain s' d sd cp dq k where r: "run_calls contract_stage_impl 2 [CallStart, CallIsRunning, CallStop, CallIsDone, CallStart]
               (demo_state Idle False [] []) = Inr ((), s')"
      "2 < length (heap s')" "heap s' ! 2 = heap (demo_state Idle False [] []) ! 2"
    and a: "Wpd_getRawData 2 (demo_state Idle False [] []) = Inr (VRef d, demo_state Idle False [] [])"
      "Wpd_getSmoothedData 2 (demo_state Idle False [] []) = Inr (VRef sd, demo_state Idle False [] [])"
      "Wpd_getPeaks 2 (demo_state Idle False [] []) = Inr (VRef cp, demo_state Idle False [] [])"
      "Wpd_getProcessedDataSize 2 (demo_state Idle False [] [])
         = Inr (k, (demo_state Idle False [] [])\<lparr>calls := calls (demo_state Idle False [] []) @ [Call dq ''size'' []]\<rparr>)"
    and b: "Wpd_getRawData 2 s' = Inr (VRef d, s')"
      "Wpd_getSmoothedData 2 s' = Inr (VRef sd, s')"
      "Wpd_getPeaks 2 s' = Inr (VRef cp, s')"
      "Wpd_getProcessedDataSize 2 s' = Inr (k, s'\<lparr>calls := calls s' @ [Call dq ''size'' []]\<rparr>)"
    by blast
  from a g have v: "d = 7" "sd = 8" "cp = 11" "k = 0"
    by simp_all
  from a(4) g(4) have "calls ((demo_state Idle False [] [])
                          \<lparr>calls := calls (demo_state Idle False [] []) @ [Call dq ''size'' []]\<rparr>)
                     = calls ((demo_state Idle False [] [])
                          \<lparr>calls := calls (demo_state Idle False [] []) @ [Call 3 ''size'' []]\<rparr>)"
    by simp
  then have "dq = 3" by simp
  note v = v this
  from v b have "Wpd_getRawData 2 s' = Inr (VRef 7, s')"
      "Wpd_getSmoothedData 2 s' = Inr (VRef 8, s')"
      "Wpd_getPeaks 2 s' = Inr (VRef 11, s')"
      "Wpd_getProcessedDataSize 2 s' = Inr (0, s'\<lparr>calls := calls s' @ [Call 3 ''size'' []]\<rparr>)"
    by simp_all
  with c r show ?thesis by blast
qed

end
